theory Spec2Isabelle
  imports Main
begin

section \<open>Strings and numbers of the host language\<close>

text \<open>
  The client (\<^verbatim>\<open>src/index.ts\<close>) is TypeScript running in a browser.  Text is modelled
  as \<^typ>\<open>string\<close>: the wire syntax (tag names, digits, paths) is ASCII, and text beyond
  ASCII is taken in its UTF-8 encoding.  (The program indexes into text only with
  \<^verbatim>\<open>slice\<close>, on strings of digits and on the date text, where a character beyond
  ASCII takes the text off the standard date format however it is counted.)  A number is an IEEE double; the
  numbers this program computes are \<^verbatim>\<open>NaN\<close>, an infinity, or an integer-valued
  double, so the type below carries exactly those.  The two zeros are identified: the
  program only ever compares a number with \<^verbatim>\<open>!==\<close>, which does not tell them apart.
\<close>

datatype number = NaN | PosInfinity | NegInfinity | Num int

text \<open>Number of binary digits of a positive integer.\<close>

function bitlen :: "int \<Rightarrow> nat" where
  "bitlen n = (if n \<le> 0 then 0 else Suc (bitlen (n div 2)))"
  by pat_completeness auto
termination
  by (relation "measure nat") auto

declare bitlen.simps [simp del]

text \<open>
  The double nearest to a mathematical integer (round to nearest, ties to even, on a
  53-bit significand; a magnitude that rounds to \<open>2 ^ 1024\<close> is infinite).
\<close>

definition to_double :: "int \<Rightarrow> number" where
  "to_double n =
     (let a = \<bar>n\<bar>;
          e = bitlen a - 53;
          q = a div 2 ^ e;
          r = a mod 2 ^ e;
          q' = (if 2 * r > 2 ^ e \<or> (2 * r = 2 ^ e \<and> odd q) then q + 1 else q);
          m = q' * 2 ^ e
      in if m \<ge> 2 ^ 1024 then (if n < 0 then NegInfinity else PosInfinity)
         else Num (if n < 0 then - m else m))"

text \<open>\<^verbatim>\<open>x + 1\<close> on numbers, as in \<^verbatim>\<open>date.getMonth() + 1\<close>.\<close>

fun number_add :: "number \<Rightarrow> int \<Rightarrow> number" where
  "number_add (Num a) b = to_double (a + b)"
| "number_add x b = x"

text \<open>Decimal digits of a natural number, most significant first.\<close>

definition digit_char :: "nat \<Rightarrow> char" where
  "digit_char d = ''0123456789'' ! d"

fun digits :: "nat \<Rightarrow> string" where
  "digits n = (if n < 10 then [digit_char n] else digits (n div 10) @ [digit_char (n mod 10)])"

declare digits.simps [simp del]

definition show_int :: "int \<Rightarrow> string" where
  "show_int i = (if i < 0 then CHR ''-'' # digits (nat (- i)) else digits (nat i))"

text \<open>
  \<^verbatim>\<open>Number::toString\<close> as used by template literals and string concatenation.  An
  integer below \<open>10 ^ 21\<close> in magnitude prints in plain decimal; the program only
  prints calendar fields and enumeration values.
\<close>

fun Number_toString :: "number \<Rightarrow> string" where
  "Number_toString NaN = ''NaN''"
| "Number_toString PosInfinity = ''Infinity''"
| "Number_toString NegInfinity = ''-Infinity''"
| "Number_toString (Num i) = show_int i"

text \<open>
  \<^verbatim>\<open>String.prototype.slice(start, end)\<close>: a negative index counts from the end, both
  are clamped to the string, and an absent \<^verbatim>\<open>end\<close> is the length.
\<close>

definition slice :: "int \<Rightarrow> int option \<Rightarrow> string \<Rightarrow> string" where
  "slice start fin s =
     (let len = int (length s);
          clamp = (\<lambda>i. if i < 0 then max (len + i) 0 else min i len);
          lo = clamp start;
          hi = (case fin of None \<Rightarrow> len | Some e \<Rightarrow> clamp e)
      in take (nat (hi - lo)) (drop (nat lo) s))"

subsection \<open>parseInt\<close>

text \<open>
  White space that \<^verbatim>\<open>parseInt\<close> skips: the ASCII control and space characters, and
  the UTF-8 encodings of U+00A0, U+1680, U+2000..U+200A, U+2028, U+2029, U+202F, U+205F,
  U+3000 and U+FEFF.  \<open>ws_len s\<close> is the length of the white-space character at the
  head of \<open>s\<close>, or 0.
\<close>

definition ws_len :: "string \<Rightarrow> nat" where
  "ws_len s =
     (if take 1 s \<in> set [[CHR 0x09], [CHR 0x0A], [CHR 0x0B], [CHR 0x0C], [CHR 0x0D], [CHR 0x20]]
      then 1
      else if take 2 s = [CHR 0xC2, CHR 0xA0] then 2
      else if take 3 s \<in> set [[CHR 0xE1, CHR 0x9A, CHR 0x80], [CHR 0xE2, CHR 0x80, CHR 0xA8],
                [CHR 0xE2, CHR 0x80, CHR 0xA9], [CHR 0xE2, CHR 0x80, CHR 0xAF],
                [CHR 0xE2, CHR 0x81, CHR 0x9F], [CHR 0xE3, CHR 0x80, CHR 0x80],
                [CHR 0xEF, CHR 0xBB, CHR 0xBF]]
              \<or> (take 2 s = [CHR 0xE2, CHR 0x80] \<and> length s \<ge> 3
                  \<and> (of_char (s ! 2) :: nat) \<ge> 0x80 \<and> (of_char (s ! 2) :: nat) \<le> 0x8A)
      then 3
      else 0)"

function trimStart :: "string \<Rightarrow> string" where
  "trimStart s = (if ws_len s = 0 then s else trimStart (drop (ws_len s) s))"
  by pat_completeness auto
termination
proof (relation "measure length")
  show "wf (measure length)" by simp
next
  fix s :: string assume a: "ws_len s \<noteq> 0"
  then have "s \<noteq> []" by (auto simp: ws_len_def)
  with a show "(drop (ws_len s) s, s) \<in> measure length" by simp
qed

declare trimStart.simps [simp del]

text \<open>Value of a character as a digit; 36 when it is none in any radix.\<close>

definition digit_of :: "char \<Rightarrow> nat" where
  "digit_of c =
     (let n = of_char c :: nat
      in if 48 \<le> n \<and> n \<le> 57 then n - 48
         else if 97 \<le> n \<and> n \<le> 122 then n - 87
         else if 65 \<le> n \<and> n \<le> 90 then n - 55
         else 36)"

definition radix_value :: "nat \<Rightarrow> string \<Rightarrow> nat" where
  "radix_value R Z = foldl (\<lambda>acc c. acc * R + digit_of c) 0 Z"

text \<open>
  \<^verbatim>\<open>parseInt(string)\<close> with no radix argument: skip leading white space, take a sign,
  recognise a \<^verbatim>\<open>0x\<close> prefix, read the longest run of digits of the radix, and return
  \<^verbatim>\<open>NaN\<close> when that run is empty; otherwise return the double nearest to the
  integer read (beyond twenty significant digits the standard lets an engine
  approximate; the model rounds the exact integer).  It never throws.
\<close>

definition parseInt :: "string \<Rightarrow> number" where
  "parseInt inputString =
     (let S = trimStart inputString;
          negative = (take 1 S = ''-'');
          S1 = (if take 1 S = ''+'' \<or> take 1 S = ''-'' then drop 1 S else S);
          hex = (take 2 S1 = ''0x'' \<or> take 2 S1 = ''0X'');
          R = (if hex then 16 else 10);
          S2 = (if hex then drop 2 S1 else S1);
          Z = takeWhile (\<lambda>c. digit_of c < R) S2
      in if Z = [] then NaN
         else to_double (if negative then - int (radix_value R Z) else int (radix_value R Z)))"

section \<open>The document object model\<close>

text \<open>
  The XML parser is an external capability; the decoders only see its result through
  \<^verbatim>\<open>querySelector\<close>, \<^verbatim>\<open>querySelectorAll\<close> and \<^verbatim>\<open>textContent\<close>.  A node is an element
  with a tag name and children, or a piece of text.
\<close>

datatype node = Element string "node list" | Text string

fun textContent :: "node \<Rightarrow> string" where
  "textContent (Text s) = s"
| "textContent (Element n cs) = concat (map textContent cs)"

text \<open>
  The elements named \<open>t\<close> in a subtree, the root included, in document order.
\<close>

fun matches :: "string \<Rightarrow> node \<Rightarrow> node list" where
  "matches t (Text s) = []"
| "matches t (Element n cs) =
     (if n = t then [Element n cs] else []) @ concat (map (matches t) cs)"

text \<open>
  \<^verbatim>\<open>e.querySelectorAll('T')\<close> with a type selector: every descendant element of \<open>e\<close>
  (not \<open>e\<close> itself, and not only its children) named \<open>T\<close>, in document order.
  \<^verbatim>\<open>e.querySelector('T')\<close> is the first of them, or \<^verbatim>\<open>null\<close>.
\<close>

fun querySelectorAll :: "string \<Rightarrow> node \<Rightarrow> node list" where
  "querySelectorAll t (Text s) = []"
| "querySelectorAll t (Element n cs) = concat (map (matches t) cs)"

definition querySelector :: "string \<Rightarrow> node \<Rightarrow> node option" where
  "querySelector t e = (case querySelectorAll t e of [] \<Rightarrow> None | x # xs \<Rightarrow> Some x)"

section \<open>Errors\<close>

text \<open>
  Everything the program can throw.  Reading \<^verbatim>\<open>.textContent\<close> or calling
  \<^verbatim>\<open>.querySelector\<close> on \<^verbatim>\<open>null\<close> throws a \<^verbatim>\<open>TypeError\<close>; the program itself
  throws \<^verbatim>\<open>RangeError(reason)\<close>, \<^verbatim>\<open>Error(message)\<close>, the failed response and the
  parser's error element; and the promise of \<^verbatim>\<open>fetch\<close> may be rejected.
\<close>

record Response =
  ok :: bool
  text_body :: string

datatype error =
    TypeError
  | RangeError string
  | Error string
  | ThrownResponse Response
  | ThrownElement node
  | FetchRejected

text \<open>\<^verbatim>\<open>q.textContent\<close> where \<open>q\<close> is the result of a \<^verbatim>\<open>querySelector\<close>.\<close>

definition textOf :: "string \<Rightarrow> node \<Rightarrow> error + string" where
  "textOf t e = (case querySelector t e of None \<Rightarrow> Inl TypeError | Some c \<Rightarrow> Inr (textContent c))"

text \<open>\<^verbatim>\<open>q?.textContent\<close>: \<^verbatim>\<open>undefined\<close> (\<open>None\<close>) when the element is not found.\<close>

definition optTextOf :: "string \<Rightarrow> node \<Rightarrow> string option" where
  "optTextOf t e = map_option textContent (querySelector t e)"

text \<open>Sequencing of computations that may throw.\<close>

definition bind :: "error + 'a \<Rightarrow> ('a \<Rightarrow> error + 'b) \<Rightarrow> error + 'b" where
  "bind m f = (case m of Inl e \<Rightarrow> Inl e | Inr x \<Rightarrow> f x)"

text \<open>\<^verbatim>\<open>xs.map(f)\<close> where \<open>f\<close> may throw: the first failure, in order, aborts.\<close>

fun mapM :: "('a \<Rightarrow> error + 'b) \<Rightarrow> 'a list \<Rightarrow> error + 'b list" where
  "mapM f [] = Inr []"
| "mapM f (x # xs) = bind (f x) (\<lambda>y. bind (mapM f xs) (\<lambda>ys. Inr (y # ys)))"

text \<open>
  A decoder is declared on \<^verbatim>\<open>Element\<close> but is handed the result of a
  \<^verbatim>\<open>querySelector\<close>; on \<^verbatim>\<open>null\<close> its first line throws.
\<close>

definition onElement :: "(node \<Rightarrow> error + 'a) \<Rightarrow> node option \<Rightarrow> error + 'a" where
  "onElement f q = (case q of None \<Rightarrow> Inl TypeError | Some e \<Rightarrow> f e)"

section \<open>The status envelope\<close>

record Result =
  code :: number
  message :: string

text \<open>\<^verbatim>\<open>Result.fromElement\<close>\<close>

definition Result_fromElement :: "node \<Rightarrow> error + Result" where
  "Result_fromElement result =
     bind (textOf ''Code'' result) (\<lambda>c.
     bind (textOf ''Message'' result) (\<lambda>m.
     Inr \<lparr>code = parseInt c, message = m\<rparr>))"

section \<open>Dates\<close>

text \<open>
  A \<^verbatim>\<open>Date\<close> holds a time value, the milliseconds since 1970-01-01T00:00:00Z (at
  most \<open>8.64 * 10 ^ 15\<close> in magnitude), or is the Invalid Date.  The calendar functions
  below are those of ECMAScript
  (\<^verbatim>\<open>Day\<close>, \<^verbatim>\<open>DayFromYear\<close>, \<^verbatim>\<open>YearFromTime\<close>, \<^verbatim>\<open>MonthFromTime\<close>,
  \<^verbatim>\<open>DateFromTime\<close>, \<^verbatim>\<open>MakeDay\<close>), on integers.
\<close>

datatype jsdate = Date int | InvalidDate

definition msPerDay :: int where
  "msPerDay = 86400000"

definition Day :: "int \<Rightarrow> int" where
  "Day t = t div msPerDay"

definition DayFromYear :: "int \<Rightarrow> int" where
  "DayFromYear y = 365 * (y - 1970) + (y - 1969) div 4 - (y - 1901) div 100 + (y - 1601) div 400"

definition InLeapYear :: "int \<Rightarrow> int" where
  "InLeapYear y =
     (if y mod 4 \<noteq> 0 then 0
      else if y mod 100 \<noteq> 0 then 1
      else if y mod 400 \<noteq> 0 then 0
      else 1)"

text \<open>
  The year of a day number: the largest \<open>y\<close> with \<open>DayFromYear y \<le> d\<close>, found from
  the mean length of a year and corrected by one (that it is this year is proved below,
  \<open>YearFromDay_bounds\<close> and \<open>YearFromDay_unique\<close>).
\<close>

definition YearFromDay :: "int \<Rightarrow> int" where
  "YearFromDay d =
     (let y = 1970 + (d * 400) div 146097
      in if DayFromYear (y + 1) \<le> d then y + 1
         else if d < DayFromYear y then y - 1
         else y)"

definition YearFromTime :: "int \<Rightarrow> int" where
  "YearFromTime t = YearFromDay (Day t)"

definition DayWithinYear :: "int \<Rightarrow> int" where
  "DayWithinYear t = Day t - DayFromYear (YearFromTime t)"

definition MonthFromTime :: "int \<Rightarrow> int" where
  "MonthFromTime t =
     (let d = DayWithinYear t; L = InLeapYear (YearFromTime t)
      in if d < 31 then 0
         else if d < 59 + L then 1
         else if d < 90 + L then 2
         else if d < 120 + L then 3
         else if d < 151 + L then 4
         else if d < 181 + L then 5
         else if d < 212 + L then 6
         else if d < 243 + L then 7
         else if d < 273 + L then 8
         else if d < 304 + L then 9
         else if d < 334 + L then 10
         else 11)"

definition DateFromTime :: "int \<Rightarrow> int" where
  "DateFromTime t =
     (let d = DayWithinYear t; L = InLeapYear (YearFromTime t); m = MonthFromTime t
      in if m = 0 then d + 1
         else if m = 1 then d - 30
         else if m = 2 then d - 58 - L
         else if m = 3 then d - 89 - L
         else if m = 4 then d - 119 - L
         else if m = 5 then d - 150 - L
         else if m = 6 then d - 180 - L
         else if m = 7 then d - 211 - L
         else if m = 8 then d - 242 - L
         else if m = 9 then d - 272 - L
         else if m = 10 then d - 303 - L
         else d - 333 - L)"

text \<open>Days before the first of month \<open>m\<close> (0..11) in a year with leap flag \<open>L\<close>.\<close>

definition DaysBeforeMonth :: "int \<Rightarrow> int \<Rightarrow> int" where
  "DaysBeforeMonth m L =
     (if m = 0 then 0 else if m = 1 then 31
      else [59, 90, 120, 151, 181, 212, 243, 273, 304, 334] ! nat (m - 2) + L)"

definition MakeDay :: "int \<Rightarrow> int \<Rightarrow> int \<Rightarrow> int" where
  "MakeDay year month date =
     (let ym = year + month div 12; mn = month mod 12
      in DayFromYear ym + DaysBeforeMonth mn (InLeapYear ym) + date - 1)"

text \<open>Days in month \<open>m\<close> (0..11) of a year with leap flag \<open>L\<close>.\<close>

definition DaysInMonth :: "int \<Rightarrow> int \<Rightarrow> int" where
  "DaysInMonth m L =
     (if m = 1 then 28 + L
      else if m = 3 \<or> m = 5 \<or> m = 8 \<or> m = 10 then 30
      else 31)"

definition dec :: "string \<Rightarrow> int" where
  "dec s = int (radix_value 10 s)"

text \<open>\<^verbatim>\<open>a < b\<close> on dates compares time values; with an Invalid Date it is false.\<close>

fun date_less :: "jsdate \<Rightarrow> jsdate \<Rightarrow> bool" where
  "date_less (Date a) (Date b) = (a < b)"
| "date_less x y = False"

section \<open>The host\<close>

text \<open>
  What the program takes from its environment: the clock (\<^verbatim>\<open>new Date()\<close>), the local
  time zone (the offset, in milliseconds, of local time from UTC at an instant; it is
  what \<^verbatim>\<open>getFullYear\<close>, \<^verbatim>\<open>getMonth\<close> and \<^verbatim>\<open>getDate\<close> read), what the engine
  makes of a date string that the standard does not settle, the transport \<^verbatim>\<open>fetch\<close> and
  the XML parser.
\<close>

datatype document = Document "node list"

record host =
  now :: int
  localTZA :: "int \<Rightarrow> int"
  Date_parse_other :: "string \<Rightarrow> jsdate"
  fetch :: "string \<Rightarrow> error + Response"
  parseFromString :: "string \<Rightarrow> document"

definition LocalTime :: "host \<Rightarrow> int \<Rightarrow> int" where
  "LocalTime h t = t + localTZA h t"

fun getFullYear :: "host \<Rightarrow> jsdate \<Rightarrow> number" where
  "getFullYear h (Date t) = Num (YearFromTime (LocalTime h t))"
| "getFullYear h InvalidDate = NaN"

fun getMonth :: "host \<Rightarrow> jsdate \<Rightarrow> number" where
  "getMonth h (Date t) = Num (MonthFromTime (LocalTime h t))"
| "getMonth h InvalidDate = NaN"

fun getDate :: "host \<Rightarrow> jsdate \<Rightarrow> number" where
  "getDate h (Date t) = Num (DateFromTime (LocalTime h t))"
| "getDate h InvalidDate = NaN"

text \<open>
  \<^verbatim>\<open>new Date(string)\<close>.  The standard fixes the result on its own string format, of
  which this program builds one shape, the full date-time form
  \<^verbatim>\<open>YYYY-MM-DDTHH:mm:ss.sss+HH:mm\<close>: four, two and two digits for a date of the
  calendar (month 01..12, day 01 up to the length of the month), a valid time of day,
  and a numeric offset, which is subtracted.  On every other string, and on a string of
  that shape with a field out of range, the result is the engine's own
  (\<open>Date_parse_other\<close>): the standard lets an engine fall back to formats and rules of
  its choice there, and engines differ.
\<close>

definition Date_parse :: "host \<Rightarrow> string \<Rightarrow> jsdate" where
  "Date_parse h s =
     (let Y = take 4 s; M = take 2 (drop 5 s); D = take 2 (drop 8 s);
          hh = take 2 (drop 11 s); mm = take 2 (drop 14 s); ss = take 2 (drop 17 s);
          ms = take 3 (drop 20 s);
          sg = take 1 (drop 23 s); zh = take 2 (drop 24 s); zm = take 2 (drop 27 s);
          time = dec hh * 3600000 + dec mm * 60000 + dec ss * 1000 + dec ms;
          offset = (dec zh * 60 + dec zm) * 60000
      in if length s = 29
            \<and> list_all (\<lambda>c. digit_of c < 10) (Y @ M @ D @ hh @ mm @ ss @ ms @ zh @ zm)
            \<and> map (\<lambda>i. s ! i) [4, 7, 10, 13, 16, 19, 26] = ''--T::.:''
            \<and> (sg = ''+'' \<or> sg = ''-'')
            \<and> 1 \<le> dec M \<and> dec M \<le> 12
            \<and> 1 \<le> dec D \<and> dec D \<le> DaysInMonth (dec M - 1) (InLeapYear (dec Y))
            \<and> dec mm \<le> 59 \<and> dec ss \<le> 59 \<and> time \<le> msPerDay
            \<and> dec zh \<le> 23 \<and> dec zm \<le> 59
         then Date (MakeDay (dec Y) (dec M - 1) (dec D) * msPerDay + time
                      - (if sg = ''-'' then - offset else offset))
         else Date_parse_other h s)"

text \<open>
  \<^verbatim>\<open>doc.querySelector('T')\<close> on the document sees every element, the root included.
  \<^verbatim>\<open>doc.querySelector('A B')\<close> is the first element named \<open>B\<close>, in document order,
  that has an ancestor named \<open>A\<close>.
\<close>

fun doc_querySelector :: "string \<Rightarrow> document \<Rightarrow> node option" where
  "doc_querySelector t (Document cs) =
     (case concat (map (matches t) cs) of [] \<Rightarrow> None | x # xs \<Rightarrow> Some x)"

fun matches_under :: "string \<Rightarrow> string \<Rightarrow> bool \<Rightarrow> node \<Rightarrow> node list" where
  "matches_under a b inside (Text s) = []"
| "matches_under a b inside (Element n cs) =
     (if inside \<and> n = b then [Element n cs] else [])
       @ concat (map (matches_under a b (inside \<or> n = a)) cs)"

fun doc_querySelector2 :: "string \<Rightarrow> string \<Rightarrow> document \<Rightarrow> node option" where
  "doc_querySelector2 a b (Document cs) =
     (case concat (map (matches_under a b False) cs) of [] \<Rightarrow> None | x # xs \<Rightarrow> Some x)"

section \<open>Entity decoders\<close>

text \<open>
  A property that a class declares optional (\<^verbatim>\<open>f?: T\<close>) is, in an object of the class,
  in one of three states: never assigned, so that the object has no such property;
  assigned \<^verbatim>\<open>undefined\<close>, so that the object has the property and it holds
  \<^verbatim>\<open>undefined\<close>; or assigned a value.  (\<^verbatim>\<open>new C()\<close> creates no property for a field
  declared without an initialiser: the declarations are types only.)
\<close>

datatype 'a property = Absent | Undefined | Value 'a

text \<open>
  \<^verbatim>\<open>v.f = x\<close> where \<open>x\<close> is a value or \<^verbatim>\<open>undefined\<close> (\<open>None\<close>): the object has the
  property afterwards, whatever \<open>x\<close> is.
\<close>

definition assigned :: "'a option \<Rightarrow> 'a property" where
  "assigned x = (case x of None \<Rightarrow> Undefined | Some y \<Rightarrow> Value y)"

text \<open>
  The promulgation date of a list entry:
  \<^verbatim>\<open>new Date(`${d.slice(0, 4)}-${d.slice(4, 6)}-${d.slice(6, 8)}T00:00:00.000+09:00`)\<close>.
  When the text is eight digits of a calendar date, this is midnight of that date at
  UTC+9; on any other text it is what the engine makes of the string, which is why the
  decoders of list entries take the host.
\<close>

definition PromulgationDate_of :: "host \<Rightarrow> string \<Rightarrow> jsdate" where
  "PromulgationDate_of h d =
     Date_parse h (slice 0 (Some 4) d @ ''-'' @ slice 4 (Some 6) d @ ''-'' @ slice 6 (Some 8) d
                   @ ''T00:00:00.000+09:00'')"

record LawNameListInfo =
  LawNameListInfo_LawId :: string
  LawNameListInfo_LawName :: string
  LawNameListInfo_LawNo :: string
  LawNameListInfo_PromulgationDate :: jsdate

text \<open>\<^verbatim>\<open>LawNameListInfo.fromElement\<close>\<close>

definition LawNameListInfo_fromElement :: "host \<Rightarrow> node \<Rightarrow> error + LawNameListInfo" where
  "LawNameListInfo_fromElement h info =
     bind (textOf ''LawId'' info) (\<lambda>lawId.
     bind (textOf ''LawName'' info) (\<lambda>lawName.
     bind (textOf ''LawNo'' info) (\<lambda>lawNo.
     bind (textOf ''PromulgationDate'' info) (\<lambda>d.
     Inr \<lparr>LawNameListInfo_LawId = lawId, LawNameListInfo_LawName = lawName,
          LawNameListInfo_LawNo = lawNo,
          LawNameListInfo_PromulgationDate = PromulgationDate_of h d\<rparr>))))"

record Lawlists =
  Lawlists_Category :: number
  Lawlists_LawNameListInfo :: "LawNameListInfo list"

text \<open>\<^verbatim>\<open>Lawlists.fromElement\<close>\<close>

definition Lawlists_fromElement :: "host \<Rightarrow> node \<Rightarrow> error + Lawlists" where
  "Lawlists_fromElement h e =
     bind (textOf ''Category'' e) (\<lambda>c.
     bind (mapM (LawNameListInfo_fromElement h) (querySelectorAll ''LawNameListInfo'' e)) (\<lambda>infos.
     Inr \<lparr>Lawlists_Category = parseInt c, Lawlists_LawNameListInfo = infos\<rparr>))"

record Lawdata =
  Lawdata_LawId :: string
  Lawdata_LawNum :: string
  Lawdata_LawFullText :: string
  Lawdata_ImageData :: "string property"

text \<open>\<^verbatim>\<open>Lawdata.fromElement\<close>\<close>

definition Lawdata_fromElement :: "node \<Rightarrow> error + Lawdata" where
  "Lawdata_fromElement e =
     bind (textOf ''LawId'' e) (\<lambda>lawId.
     bind (textOf ''LawNum'' e) (\<lambda>lawNum.
     bind (textOf ''LawFullText'' e) (\<lambda>lawFullText.
     Inr \<lparr>Lawdata_LawId = lawId, Lawdata_LawNum = lawNum, Lawdata_LawFullText = lawFullText,
          Lawdata_ImageData = assigned (optTextOf ''ImageData'' e)\<rparr>)))"

record AppdxTableTitleLists =
  AppdxTableTitle :: "string list"

record Articles =
  Articles_LawId :: string
  Articles_LawNum :: string
  Articles_Article :: string
  Articles_Paragraph :: string
  Articles_AppdxTable :: string
  Articles_LawContents :: string
  Articles_AppdxTableTitleLists :: "AppdxTableTitleLists property"
  Articles_ImageData :: "string property"

text \<open>\<^verbatim>\<open>Articles.fromElement\<close>\<close>

definition Articles_fromElement :: "node \<Rightarrow> error + Articles" where
  "Articles_fromElement e =
     bind (textOf ''LawId'' e) (\<lambda>lawId.
     bind (textOf ''LawNum'' e) (\<lambda>lawNum.
     bind (textOf ''Article'' e) (\<lambda>article.
     bind (textOf ''Paragraph'' e) (\<lambda>paragraph.
     bind (textOf ''AppdxTable'' e) (\<lambda>appdxTable.
     bind (textOf ''LawContents'' e) (\<lambda>lawContents.
     Inr \<lparr>Articles_LawId = lawId, Articles_LawNum = lawNum, Articles_Article = article,
          Articles_Paragraph = paragraph, Articles_AppdxTable = appdxTable,
          Articles_LawContents = lawContents,
          Articles_AppdxTableTitleLists =
            (case querySelector ''AppdxTableTitleLists'' e of
               None \<Rightarrow> Absent
             | Some a \<Rightarrow>
                 Value \<lparr>AppdxTableTitle = map textContent (querySelectorAll ''AppdxTableTitle'' a)\<rparr>),
          Articles_ImageData = assigned (optTextOf ''ImageData'' e)\<rparr>))))))"

record LawNameListInfo2 =
  LawNameListInfo2_LawTypeName :: number
  LawNameListInfo2_LawNo :: string
  LawNameListInfo2_LawName :: string
  LawNameListInfo2_LawNameKana :: string
  LawNameListInfo2_OldLawName :: string
  LawNameListInfo2_PromulgationDate :: jsdate
  LawNameListInfo2_AmendName :: string
  LawNameListInfo2_AmendNo :: string
  LawNameListInfo2_AmendPromulgationDate :: string
  LawNameListInfo2_EnforcementDate :: string
  LawNameListInfo2_EnforcementComment :: string
  LawNameListInfo2_LawId :: string
  LawNameListInfo2_LawUrl :: string
  LawNameListInfo2_EnforcementFlg :: number
  LawNameListInfo2_AuthFlg :: number

text \<open>\<^verbatim>\<open>LawNameListInfo2.fromElement\<close>\<close>

definition LawNameListInfo2_fromElement :: "host \<Rightarrow> node \<Rightarrow> error + LawNameListInfo2" where
  "LawNameListInfo2_fromElement h info =
     bind (textOf ''LawTypeName'' info) (\<lambda>lawTypeName.
     bind (textOf ''LawNo'' info) (\<lambda>lawNo.
     bind (textOf ''LawName'' info) (\<lambda>lawName.
     bind (textOf ''LawNameKana'' info) (\<lambda>lawNameKana.
     bind (textOf ''OldLawName'' info) (\<lambda>oldLawName.
     bind (textOf ''PromulgationDate'' info) (\<lambda>d.
     bind (textOf ''AmendName'' info) (\<lambda>amendName.
     bind (textOf ''AmendNo'' info) (\<lambda>amendNo.
     bind (textOf ''AmendPromulgationDate'' info) (\<lambda>amendPromulgationDate.
     bind (textOf ''EnforcementDate'' info) (\<lambda>enforcementDate.
     bind (textOf ''EnforcementComment'' info) (\<lambda>enforcementComment.
     bind (textOf ''LawId'' info) (\<lambda>lawId.
     bind (textOf ''LawUrl'' info) (\<lambda>lawUrl.
     bind (textOf ''EnforcementFlg'' info) (\<lambda>enforcementFlg.
     bind (textOf ''AuthFlg'' info) (\<lambda>authFlg.
     Inr \<lparr>LawNameListInfo2_LawTypeName = parseInt lawTypeName,
          LawNameListInfo2_LawNo = lawNo,
          LawNameListInfo2_LawName = lawName,
          LawNameListInfo2_LawNameKana = lawNameKana,
          LawNameListInfo2_OldLawName = oldLawName,
          LawNameListInfo2_PromulgationDate = PromulgationDate_of h d,
          LawNameListInfo2_AmendName = amendName,
          LawNameListInfo2_AmendNo = amendNo,
          LawNameListInfo2_AmendPromulgationDate = amendPromulgationDate,
          LawNameListInfo2_EnforcementDate = enforcementDate,
          LawNameListInfo2_EnforcementComment = enforcementComment,
          LawNameListInfo2_LawId = lawId,
          LawNameListInfo2_LawUrl = lawUrl,
          LawNameListInfo2_EnforcementFlg = parseInt enforcementFlg,
          LawNameListInfo2_AuthFlg = parseInt authFlg\<rparr>)))))))))))))))"

record Updatelawlists =
  Updatelawlists_Date :: number
  Updatelawlists_LawNameListInfo :: "LawNameListInfo2 list property"

text \<open>\<^verbatim>\<open>Updatelawlists.fromElement\<close>\<close>

definition Updatelawlists_fromElement :: "host \<Rightarrow> node \<Rightarrow> error + Updatelawlists" where
  "Updatelawlists_fromElement h e =
     bind (textOf ''Date'' e) (\<lambda>d.
     bind (mapM (LawNameListInfo2_fromElement h) (querySelectorAll ''LawNameListInfo'' e)) (\<lambda>infos.
     Inr \<lparr>Updatelawlists_Date = parseInt d, Updatelawlists_LawNameListInfo = Value infos\<rparr>))"

section \<open>The client\<close>

text \<open>
  Class \<^verbatim>\<open>ELaws\<close>.  Every operation is modelled as a pair: the list of URLs the
  transport was invoked with, in order, and the outcome (the value the promise resolves
  to, or what it rejects with).
\<close>

definition baseUrl :: string where
  "baseUrl = ''https://elaws.e-gov.go.jp/api/'' @ Number_toString (Num 1)"

text \<open>\<^verbatim>\<open>parseXML\<close>\<close>

definition parseXML :: "host \<Rightarrow> string \<Rightarrow> error + document" where
  "parseXML h xml =
     (let doc = parseFromString h xml
      in case doc_querySelector ''parsererror'' doc of
           Some err \<Rightarrow> Inl (ThrownElement err)
         | None \<Rightarrow> Inr doc)"

record ResultData = Result +
  data :: "node option"

text \<open>\<^verbatim>\<open>request\<close>: the only place where the transport is invoked.\<close>

definition request :: "host \<Rightarrow> string \<Rightarrow> string list \<times> (error + ResultData)" where
  "request h url =
     ([url],
      bind (fetch h url) (\<lambda>res.
        if \<not> ok res then Inl (ThrownResponse res)
        else
          bind (parseXML h (text_body res)) (\<lambda>doc.
          bind (onElement Result_fromElement (doc_querySelector2 ''DataRoot'' ''Result'' doc)) (\<lambda>r.
          Inr \<lparr>code = code r, message = message r,
               data = doc_querySelector2 ''DataRoot'' ''ApplData'' doc\<rparr>))))"

text \<open>
  The enumeration of law types (the source names it and its members in Japanese): all
  laws = 1, constitution and acts = 2, cabinet and imperial orders = 3, ministerial
  ordinances and rules = 4.
\<close>

datatype HoureiShubetsu = ZenHourei | KenpouHouritsu | SeireiChokurei | FushoureiKisoku

fun HoureiShubetsu_value :: "HoureiShubetsu \<Rightarrow> int" where
  "HoureiShubetsu_value ZenHourei = 1"
| "HoureiShubetsu_value KenpouHouritsu = 2"
| "HoureiShubetsu_value SeireiChokurei = 3"
| "HoureiShubetsu_value FushoureiKisoku = 4"

text \<open>\<^verbatim>\<open>getLawlists\<close>\<close>

definition getLawlists_uri :: "HoureiShubetsu \<Rightarrow> string" where
  "getLawlists_uri t = baseUrl @ ''/lawlists/'' @ Number_toString (Num (HoureiShubetsu_value t))"

definition getLawlists :: "host \<Rightarrow> HoureiShubetsu \<Rightarrow> string list \<times> (error + Lawlists)" where
  "getLawlists h t =
     (let uri = getLawlists_uri t;
          r = request h uri
      in (fst r,
          bind (snd r) (\<lambda>res.
            if code res \<noteq> Num 0 then Inl (Error (message res))
            else onElement (Lawlists_fromElement h) (data res))))"

text \<open>\<^verbatim>\<open>getLawdata\<close>\<close>

definition getLawdata_uri :: "string \<Rightarrow> string" where
  "getLawdata_uri ident = baseUrl @ ''/lawdata/'' @ ident"

definition getLawdata :: "host \<Rightarrow> string \<Rightarrow> string list \<times> (error + Lawdata)" where
  "getLawdata h ident =
     (let uri = getLawdata_uri ident;
          r = request h uri
      in (fst r,
          bind (snd r) (\<lambda>res.
            if code res \<noteq> Num 0 then Inl (Error (message res))
            else onElement Lawdata_fromElement (data res))))"

text \<open>
  \<^verbatim>\<open>getArticles\<close>.  The parameter object has its keys among those of
  \<^verbatim>\<open>GetArticlesOption\<close>; it is modelled by its entries in the order
  \<^verbatim>\<open>Object.entries\<close> lists them, which for such keys is the order in which the caller's
  object holds them.
\<close>

datatype option_key = Key_lawNum | Key_lawId | Key_article | Key_paragraph | Key_appdxTable

fun key_name :: "option_key \<Rightarrow> string" where
  "key_name Key_lawNum = ''lawNum''"
| "key_name Key_lawId = ''lawId''"
| "key_name Key_article = ''article''"
| "key_name Key_paragraph = ''paragraph''"
| "key_name Key_appdxTable = ''appdxTable''"

text \<open>\<^verbatim>\<open>Array.prototype.join\<close>\<close>

fun join :: "string \<Rightarrow> string list \<Rightarrow> string" where
  "join sep [] = []"
| "join sep [x] = x"
| "join sep (x # y # ys) = x @ sep @ join sep (y # ys)"

definition getArticles_segment :: "(option_key \<times> string) list \<Rightarrow> string" where
  "getArticles_segment params =
     (let p = map (\<lambda>(k, v). key_name k @ ''='' @ v) params in join '';'' p)"

definition getArticles_uri :: "(option_key \<times> string) list \<Rightarrow> string" where
  "getArticles_uri params = baseUrl @ ''/articles;'' @ getArticles_segment params"

definition getArticles ::
    "host \<Rightarrow> (option_key \<times> string) list \<Rightarrow> string list \<times> (error + Articles)" where
  "getArticles h params =
     (let uri = getArticles_uri params;
          r = request h uri
      in (fst r,
          bind (snd r) (\<lambda>res.
            if code res \<noteq> Num 0 \<and> code res \<noteq> Num 2 then Inl (Error (message res))
            else onElement Articles_fromElement (data res))))"

text \<open>
  \<^verbatim>\<open>getUpdatelawlists\<close>.  The two reasons are the source's Japanese messages, in UTF-8:
  the first says that the earliest date that can be given is 24 November 2020, the
  second that a future date cannot be given.
\<close>

definition reason_too_early :: string where
  "reason_too_early =
     [CHR 0xE6, CHR 0x8C, CHR 0x87, CHR 0xE5, CHR 0xAE, CHR 0x9A,
      CHR 0xE5, CHR 0x8F, CHR 0xAF, CHR 0xE8, CHR 0x83, CHR 0xBD,
      CHR 0xE3, CHR 0x81, CHR 0xAA, CHR 0xE5, CHR 0xB9, CHR 0xB4,
      CHR 0xE6, CHR 0x9C, CHR 0x88, CHR 0xE6, CHR 0x97, CHR 0xA5,
      CHR 0xE3, CHR 0x81, CHR 0xAF, CHR 0x20, CHR 0x32, CHR 0x30,
      CHR 0x32, CHR 0x30, CHR 0x20, CHR 0xE5, CHR 0xB9, CHR 0xB4,
      CHR 0x20, CHR 0x31, CHR 0x31, CHR 0x20, CHR 0xE6, CHR 0x9C,
      CHR 0x88, CHR 0x20, CHR 0x32, CHR 0x34, CHR 0x20, CHR 0xE6,
      CHR 0x97, CHR 0xA5, CHR 0xE4, CHR 0xBB, CHR 0xA5, CHR 0xE9,
      CHR 0x99, CHR 0x8D, CHR 0xE3, CHR 0x81, CHR 0xA7, CHR 0xE3,
      CHR 0x81, CHR 0x99, CHR 0xE3, CHR 0x80, CHR 0x82]"

definition reason_future :: string where
  "reason_future =
     [CHR 0xE6, CHR 0x9C, CHR 0xAA, CHR 0xE6, CHR 0x9D, CHR 0xA5,
      CHR 0xE3, CHR 0x81, CHR 0xAE, CHR 0xE6, CHR 0x97, CHR 0xA5,
      CHR 0xE4, CHR 0xBB, CHR 0x98, CHR 0xE3, CHR 0x81, CHR 0xAF,
      CHR 0xE6, CHR 0x8C, CHR 0x87, CHR 0xE5, CHR 0xAE, CHR 0x9A,
      CHR 0xE3, CHR 0x81, CHR 0xA7, CHR 0xE3, CHR 0x81, CHR 0x8D,
      CHR 0xE3, CHR 0x81, CHR 0xBE, CHR 0xE3, CHR 0x81, CHR 0x9B,
      CHR 0xE3, CHR 0x82, CHR 0x93, CHR 0xE3, CHR 0x80, CHR 0x82]"

definition min_date :: "host \<Rightarrow> jsdate" where
  "min_date h = Date_parse h ''2020-11-24T00:00:00.000+09:00''"

text \<open>The path built from the date, lines 82 to 85 of the source.\<close>

definition getUpdatelawlists_uri :: "host \<Rightarrow> jsdate \<Rightarrow> string" where
  "getUpdatelawlists_uri h date =
     (let yyyy = getFullYear h date;
          MM = slice (- 2) None (''00'' @ Number_toString (number_add (getMonth h date) 1));
          dd = slice (- 2) None (''00'' @ Number_toString (getDate h date))
      in baseUrl @ ''/updatelawlists/'' @ Number_toString yyyy @ MM @ dd)"

definition getUpdatelawlists ::
    "host \<Rightarrow> jsdate \<Rightarrow> string list \<times> (error + Updatelawlists)" where
  "getUpdatelawlists h date =
     (if date_less date (min_date h) then ([], Inl (RangeError reason_too_early))
      else if date_less (Date (now h)) date then ([], Inl (RangeError reason_future))
      else
        let uri = getUpdatelawlists_uri h date;
            r = request h uri
        in (fst r,
            bind (snd r) (\<lambda>res.
              if code res \<noteq> Num 0 then Inl (Error (message res))
              else onElement (Updatelawlists_fromElement h) (data res))))"

section \<open>Notions used in the statements\<close>

text \<open>Whether an element has a direct child element of a given name.\<close>

fun has_child :: "string \<Rightarrow> node \<Rightarrow> bool" where
  "has_child t (Text s) = False"
| "has_child t (Element n cs) = list_ex (\<lambda>c. case c of Element m ds \<Rightarrow> m = t | Text s \<Rightarrow> False) cs"

text \<open>Splitting a string at each occurrence of a separator character.\<close>

fun split_on :: "char \<Rightarrow> string \<Rightarrow> string list" where
  "split_on c [] = [[]]"
| "split_on c (x # xs) =
     (if x = c then [] # split_on c xs
      else (case split_on c xs of [] \<Rightarrow> [[x]] | y # ys \<Rightarrow> (x # y) # ys))"

section \<open>Sample inputs\<close>

text \<open>Concrete documents and hosts at which the properties below are evaluated.\<close>

definition payload_without_LawNum :: node where
  "payload_without_LawNum =
     Element ''ApplData''
       [Element ''LawId'' [Text ''a''],
        Element ''LawFullText'' [Element ''Law'' [Element ''LawNum'' [Text ''n'']]]]"

definition envelope_unparseable_code :: node where
  "envelope_unparseable_code =
     Element ''Result'' [Element ''Code'' [Text ''abc''], Element ''Message'' [Text ''m'']]"

definition lawdata_payload_plain :: node where
  "lawdata_payload_plain =
     Element ''ApplData''
       [Element ''LawId'' [Text ''a''], Element ''LawNum'' [Text ''n''],
        Element ''LawFullText'' [Text ''t'']]"

definition articles_payload_plain :: node where
  "articles_payload_plain =
     Element ''ApplData''
       [Element ''LawId'' [Text ''a''], Element ''LawNum'' [Text ''n''],
        Element ''Article'' [Text ''3''], Element ''Paragraph'' [],
        Element ''AppdxTable'' [], Element ''LawContents'' [Text ''c'']]"

definition updatelawlists_payload_empty :: node where
  "updatelawlists_payload_empty = Element ''ApplData'' [Element ''Date'' [Text ''20201124'']]"

definition sample_document :: "string \<Rightarrow> string \<Rightarrow> node list \<Rightarrow> document" where
  "sample_document c m payload =
     Document
       [Element ''DataRoot''
          [Element ''Result'' [Element ''Code'' [Text c], Element ''Message'' [Text m]],
           Element ''ApplData'' payload]]"

definition sample_host :: "int \<Rightarrow> int \<Rightarrow> document \<Rightarrow> host" where
  "sample_host clock zone doc =
     \<lparr>now = clock, localTZA = (\<lambda>t. zone), Date_parse_other = (\<lambda>s. InvalidDate),
      fetch = (\<lambda>url. Inr \<lparr>ok = True, text_body = ''<DataRoot/>''\<rparr>),
      parseFromString = (\<lambda>xml. doc)\<rparr>"

definition articles_payload_candidates :: "node list" where
  "articles_payload_candidates =
     [Element ''LawId'' [Text ''a''], Element ''LawNum'' [Text ''n''],
      Element ''Article'' [], Element ''Paragraph'' [],
      Element ''AppdxTable'' [Text ''t''], Element ''LawContents'' [],
      Element ''AppdxTableTitleLists''
        [Element ''AppdxTableTitle'' [Text ''t1''], Element ''AppdxTableTitle'' [Text ''t2'']]]"

definition lawlists_payload_large_category :: node where
  "lawlists_payload_large_category =
     Element ''ApplData'' [Element ''Category'' [Text ''9007199254740993'']]"

definition lawlists_payload_category_7 :: node where
  "lawlists_payload_category_7 = Element ''ApplData'' [Element ''Category'' [Text ''7'']]"

definition update_entry_7 :: node where
  "update_entry_7 =
     Element ''LawNameListInfo''
       [Element ''LawTypeName'' [Text ''7''], Element ''LawNo'' [], Element ''LawName'' [],
        Element ''LawNameKana'' [], Element ''OldLawName'' [],
        Element ''PromulgationDate'' [Text ''20201124''], Element ''AmendName'' [],
        Element ''AmendNo'' [], Element ''AmendPromulgationDate'' [],
        Element ''EnforcementDate'' [], Element ''EnforcementComment'' [],
        Element ''LawId'' [], Element ''LawUrl'' [],
        Element ''EnforcementFlg'' [Text ''7''], Element ''AuthFlg'' [Text ''7'']]"

definition lawdata_payload_image :: node where
  "lawdata_payload_image =
     Element ''ApplData''
       [Element ''LawId'' [Text ''a''], Element ''LawNum'' [Text ''n''],
        Element ''LawFullText'' [Text ''t''], Element ''ImageData'' [Text ''UEsDBA=='']]"

definition updatelawlists_payload_nested :: node where
  "updatelawlists_payload_nested =
     Element ''ApplData''
       [Element ''Date'' [Text ''20201124''], Element ''LawNameList'' [update_entry_7]]"

section \<open>Basic facts\<close>

lemma bind_Inl [simp]: "bind (Inl e) f = Inl e"
  by (simp add: bind_def)

lemma bind_Inr [simp]: "bind (Inr x) f = f x"
  by (simp add: bind_def)

lemma bind_eq_Inr: "(bind m f = Inr y) = (\<exists>x. m = Inr x \<and> f x = Inr y)"
  by (cases m) simp_all

lemma bind_eq_Inl: "(bind m f = Inl e) = (m = Inl e \<or> (\<exists>x. m = Inr x \<and> f x = Inl e))"
  by (cases m) simp_all

lemma textOf_eq_Inr: "(textOf t e = Inr s) = (\<exists>c. querySelector t e = Some c \<and> s = textContent c)"
  by (auto simp: textOf_def split: option.splits)

lemma textOf_eq_Inl: "(textOf t e = Inl err) = (querySelector t e = None \<and> err = TypeError)"
  by (auto simp: textOf_def split: option.splits)

lemma mapM_eq_Inl:
  "mapM f xs = Inl err \<Longrightarrow> \<exists>x \<in> set xs. f x = Inl err"
  by (induction xs) (auto simp: bind_eq_Inl)

lemma Info2_err: "LawNameListInfo2_fromElement h e = Inl err \<Longrightarrow> err = TypeError"
  by (auto simp: LawNameListInfo2_fromElement_def bind_eq_Inl textOf_eq_Inl)

lemma Info2_Inr:
  "LawNameListInfo2_fromElement h e = Inr v \<Longrightarrow>
   list_all (\<lambda>t. querySelector t e \<noteq> None)
     [''LawTypeName'', ''LawNo'', ''LawName'', ''LawNameKana'', ''OldLawName'',
      ''PromulgationDate'', ''AmendName'', ''AmendNo'', ''AmendPromulgationDate'',
      ''EnforcementDate'', ''EnforcementComment'', ''LawId'', ''LawUrl'',
      ''EnforcementFlg'', ''AuthFlg'']"
  by (auto simp: LawNameListInfo2_fromElement_def bind_eq_Inr textOf_eq_Inr)

lemma mapM_length: "mapM f xs = Inr ys \<Longrightarrow> length ys = length xs"
  by (induction xs arbitrary: ys) (auto simp: bind_eq_Inr)

lemma LawNameListInfo_err: "LawNameListInfo_fromElement h e = Inl err \<Longrightarrow> err = TypeError"
  by (auto simp: LawNameListInfo_fromElement_def bind_eq_Inl textOf_eq_Inl)

lemma Lawlists_err: "Lawlists_fromElement h e = Inl err \<Longrightarrow> err = TypeError"
  by (auto simp: Lawlists_fromElement_def bind_eq_Inl textOf_eq_Inl
           dest!: mapM_eq_Inl LawNameListInfo_err)

lemma Lawdata_err: "Lawdata_fromElement e = Inl err \<Longrightarrow> err = TypeError"
  by (auto simp: Lawdata_fromElement_def bind_eq_Inl textOf_eq_Inl)

lemma Articles_err: "Articles_fromElement e = Inl err \<Longrightarrow> err = TypeError"
  by (auto simp: Articles_fromElement_def bind_eq_Inl textOf_eq_Inl)

lemma Updatelawlists_err: "Updatelawlists_fromElement h e = Inl err \<Longrightarrow> err = TypeError"
  by (auto simp: Updatelawlists_fromElement_def bind_eq_Inl textOf_eq_Inl
           dest!: mapM_eq_Inl Info2_err)

lemma not_Inr_TypeError:
  "(\<And>err. d = Inl err \<Longrightarrow> err = TypeError) \<Longrightarrow> (\<And>v. d \<noteq> Inr v) \<Longrightarrow> d = Inl TypeError"
  by (cases d) auto

lemma Lawlists_Inr:
  "Lawlists_fromElement h e = Inr v \<Longrightarrow> querySelector ''Category'' e \<noteq> None"
  by (auto simp: Lawlists_fromElement_def bind_eq_Inr textOf_eq_Inr)

lemma LawNameListInfo_Inr:
  "LawNameListInfo_fromElement h e = Inr v \<Longrightarrow>
   list_all (\<lambda>t. querySelector t e \<noteq> None) [''LawId'', ''LawName'', ''LawNo'', ''PromulgationDate'']"
  by (auto simp: LawNameListInfo_fromElement_def bind_eq_Inr textOf_eq_Inr)

lemma Lawdata_Inr:
  "Lawdata_fromElement e = Inr v \<Longrightarrow>
   list_all (\<lambda>t. querySelector t e \<noteq> None) [''LawId'', ''LawNum'', ''LawFullText'']"
  by (auto simp: Lawdata_fromElement_def bind_eq_Inr textOf_eq_Inr)

lemma Articles_Inr:
  "Articles_fromElement e = Inr v \<Longrightarrow>
   list_all (\<lambda>t. querySelector t e \<noteq> None)
     [''LawId'', ''LawNum'', ''Article'', ''Paragraph'', ''AppdxTable'', ''LawContents'']"
  by (auto simp: Articles_fromElement_def bind_eq_Inr textOf_eq_Inr)

lemma Updatelawlists_Inr:
  "Updatelawlists_fromElement h e = Inr v \<Longrightarrow> querySelector ''Date'' e \<noteq> None"
  by (auto simp: Updatelawlists_fromElement_def bind_eq_Inr textOf_eq_Inr)

section \<open>Numbers and digit strings\<close>

lemma bitlen_le: "n < 2 ^ k \<Longrightarrow> bitlen n \<le> k"
proof (induction k arbitrary: n)
  case 0
  then show ?case by (simp add: bitlen.simps)
next
  case (Suc k)
  show ?case
  proof (cases "n \<le> 0")
    case True
    then show ?thesis by (simp add: bitlen.simps)
  next
    case False
    from Suc.prems have "n div 2 < 2 ^ k" by simp
    then have "bitlen (n div 2) \<le> k" by (rule Suc.IH)
    with False show ?thesis by (subst bitlen.simps) simp
  qed
qed

lemma bitlen_power2: "bitlen (2 ^ k) = Suc k"
proof (induction k)
  case 0
  then show ?case by (simp add: bitlen.simps)
next
  case (Suc k)
  then show ?case by (subst bitlen.simps) simp
qed

lemma to_double_small: "\<bar>n\<bar> < 2 ^ 53 \<Longrightarrow> to_double n = Num n"
proof -
  assume a: "\<bar>n\<bar> < 2 ^ 53"
  then have "bitlen \<bar>n\<bar> \<le> 53" by (rule bitlen_le)
  then have e: "bitlen \<bar>n\<bar> - 53 = 0" by simp
  have "\<bar>n\<bar> < 2 ^ 1024" using a by (rule less_trans) simp
  then show ?thesis unfolding to_double_def Let_def e by simp
qed

lemma bitlen_2_53: "bitlen 9007199254740992 = 54"
  using bitlen_power2 [of 53] by simp

lemma to_double_power53:
  "to_double 9007199254740992 = Num 9007199254740992"
  "to_double (- 9007199254740992) = Num (- 9007199254740992)"
  by (simp_all add: to_double_def bitlen_2_53 Let_def)

lemma to_double_exact: "\<bar>n\<bar> \<le> 2 ^ 53 \<Longrightarrow> to_double n = Num n"
proof -
  assume "\<bar>n\<bar> \<le> 2 ^ 53"
  then consider "\<bar>n\<bar> < 2 ^ 53" | "n = 9007199254740992" | "n = - 9007199254740992"
    by (simp add: abs_if split: if_splits) linarith+
  then show ?thesis
    by cases (simp_all only: to_double_small to_double_power53)
qed

lemma trimStart_id: "ws_len s = 0 \<Longrightarrow> trimStart s = s"
  by (simp add: trimStart.simps)

lemma digit_of_digit_char: "d < 10 \<Longrightarrow> digit_of (digit_char d) = d"
proof -
  assume "d < 10"
  then have "d \<in> set [0..<10]" by simp
  then show ?thesis by (auto simp: upt_rec digit_of_def digit_char_def)
qed

lemma digits_nonempty: "digits n \<noteq> []"
  by (subst digits.simps) simp

lemma digits_all_decimal: "list_all (\<lambda>c. digit_of c < 10) (digits n)"
proof (induction n rule: digits.induct)
  case (1 n)
  show ?case
  proof (cases "n < 10")
    case True
    then show ?thesis by (subst digits.simps) (simp add: digit_of_digit_char)
  next
    case False
    with 1 have "list_all (\<lambda>c. digit_of c < 10) (digits (n div 10))" by simp
    moreover have "digit_of (digit_char (n mod 10)) < 10" by (simp add: digit_of_digit_char)
    ultimately show ?thesis using False by (subst digits.simps) simp
  qed
qed

lemma radix_value_snoc: "radix_value R (Z @ [c]) = radix_value R Z * R + digit_of c"
  by (simp add: radix_value_def)

lemma radix_value_digits: "radix_value 10 (digits n) = n"
proof (induction n rule: digits.induct)
  case (1 n)
  show ?case
  proof (cases "n < 10")
    case True
    then show ?thesis by (subst digits.simps) (simp add: radix_value_def digit_of_digit_char)
  next
    case False
    with 1 have "radix_value 10 (digits (n div 10)) = n div 10" by simp
    with False show ?thesis
      by (subst digits.simps) (simp add: radix_value_snoc digit_of_digit_char)
  qed
qed

lemma ws_len_lead:
  "ws_len (c # s) \<noteq> 0 \<Longrightarrow>
   c \<in> set [CHR 0x09, CHR 0x0A, CHR 0x0B, CHR 0x0C, CHR 0x0D, CHR 0x20,
             CHR 0xC2, CHR 0xE1, CHR 0xE2, CHR 0xE3, CHR 0xEF]"
  by (auto simp: ws_len_def split: if_splits)

lemma ws_len_decimal:
  assumes "digit_of c < 10 \<or> c = CHR ''-''"
  shows "ws_len (c # s) = 0"
proof -
  have "c \<notin> set [CHR 0x09, CHR 0x0A, CHR 0x0B, CHR 0x0C, CHR 0x0D, CHR 0x20,
             CHR 0xC2, CHR 0xE1, CHR 0xE2, CHR 0xE3, CHR 0xEF]"
    using assms by (auto simp: digit_of_def)
  then show ?thesis using ws_len_lead by blast
qed

lemma parseInt_decimal:
  assumes "list_all (\<lambda>c. digit_of c < 10) ds" "ds \<noteq> []"
  shows "parseInt ds = to_double (int (radix_value 10 ds))"
    and "parseInt (CHR ''-'' # ds) = to_double (- int (radix_value 10 ds))"
proof -
  from assms obtain c cs where ds: "ds = c # cs" by (cases ds) auto
  with assms have c: "digit_of c < 10" by simp
  then have sign: "c \<noteq> CHR ''-''" "c \<noteq> CHR ''+''" by (auto simp: digit_of_def)
  have nohex: "take 2 ds \<noteq> ''0x''" "take 2 ds \<noteq> ''0X''"
    using assms(1) by (cases cs; auto simp: ds digit_of_def)+
  have tw: "takeWhile (\<lambda>c. digit_of c < 10) ds = ds"
    using assms(1) by (simp add: list_all_iff)
  have w1: "trimStart ds = ds" unfolding ds by (rule trimStart_id, rule ws_len_decimal) (simp add: c)
  have w2: "trimStart (CHR ''-'' # ds) = CHR ''-'' # ds"
    by (rule trimStart_id, rule ws_len_decimal) simp
  show "parseInt ds = to_double (int (radix_value 10 ds))"
    using assms(2) nohex sign by (simp add: parseInt_def w1 tw) (simp add: ds sign)
  show "parseInt (CHR ''-'' # ds) = to_double (- int (radix_value 10 ds))"
    using assms(2) nohex by (simp add: parseInt_def w2 tw)
qed

lemma parseInt_show_int: "parseInt (show_int v) = to_double v"
  using parseInt_decimal [OF digits_all_decimal digits_nonempty]
  by (simp add: show_int_def radix_value_digits)

lemma parseInt_small:
  "parseInt ''0'' = Num 0" "parseInt ''1'' = Num 1" "parseInt ''2'' = Num 2"
  using parseInt_show_int [of 0] parseInt_show_int [of 1] parseInt_show_int [of 2]
  by (simp_all add: show_int_def digits.simps digit_char_def to_double_small)

section \<open>Facts about the client\<close>

lemma min_date_value: "min_date h = Date 1606143600000"
  by (simp add: min_date_def Date_parse_def dec_def radix_value_def digit_of_def MakeDay_def
        DayFromYear_def DaysBeforeMonth_def DaysInMonth_def InLeapYear_def msPerDay_def)

lemma length_8:
  assumes "length d = 8"
  obtains a b c e f g i j where "d = [a, b, c, e, f, g, i, j]"
proof -
  from assms obtain a d1 where "d = a # d1" "length d1 = 7" by (cases d) auto
  moreover then obtain b d2 where "d1 = b # d2" "length d2 = 6" by (cases d1) auto
  moreover then obtain c d3 where "d2 = c # d3" "length d3 = 5" by (cases d2) auto
  moreover then obtain e d4 where "d3 = e # d4" "length d4 = 4" by (cases d3) auto
  moreover then obtain f d5 where "d4 = f # d5" "length d5 = 3" by (cases d4) auto
  moreover then obtain g d6 where "d5 = g # d6" "length d6 = 2" by (cases d5) auto
  moreover then obtain i d7 where "d6 = i # d7" "length d7 = 1" by (cases d6) auto
  moreover then obtain j where "d7 = [j]" by (cases d7) auto
  ultimately show ?thesis using that by simp
qed

text \<open>
  The promulgation date decoded from eight digits of a calendar date is midnight of that
  date at UTC+9, on every host.
\<close>

lemma PromulgationDate_of_digits:
  assumes "length d = 8" "list_all (\<lambda>c. digit_of c < 10) d"
    and "1 \<le> dec (take 2 (drop 4 d))" "dec (take 2 (drop 4 d)) \<le> 12"
    and "1 \<le> dec (drop 6 d)"
    and "dec (drop 6 d) \<le> DaysInMonth (dec (take 2 (drop 4 d)) - 1) (InLeapYear (dec (take 4 d)))"
  shows "PromulgationDate_of h d =
           Date (MakeDay (dec (take 4 d)) (dec (take 2 (drop 4 d)) - 1) (dec (drop 6 d)) * msPerDay
                   - 32400000)"
proof -
  from assms(1) obtain a b c e f g i j where d: "d = [a, b, c, e, f, g, i, j]"
    by (rule length_8)
  have z: "digit_of CHR ''0'' = 0" "digit_of CHR ''9'' = 9" by (simp_all add: digit_of_def)
  have dz: "dec ''00'' = 0" "dec ''000'' = 0" "dec ''09'' = 9"
    by (simp_all add: dec_def radix_value_def z)
  show ?thesis
    using assms(2-) unfolding d
    by (simp add: PromulgationDate_of_def slice_def Date_parse_def Let_def z dz msPerDay_def)
qed

lemma reasons_distinct: "reason_too_early \<noteq> reason_future"
  by (simp add: reason_too_early_def reason_future_def)

lemma fst_request: "fst (request h url) = [url]"
  by (simp add: request_def)

lemma split_on_no_sep: "c \<notin> set s \<Longrightarrow> split_on c s = [s]"
  by (induction s) auto

lemma split_on_append: "c \<notin> set s \<Longrightarrow> split_on c (s @ c # r) = s # split_on c r"
  by (induction s) auto

lemma split_on_join:
  "xs \<noteq> [] \<Longrightarrow> list_all (\<lambda>s. c \<notin> set s) xs \<Longrightarrow> split_on c (join [c] xs) = xs"
proof (induction xs)
  case Nil
  then show ?case by simp
next
  case (Cons x xs)
  show ?case
  proof (cases xs)
    case Nil
    with Cons.prems show ?thesis by (simp add: split_on_no_sep)
  next
    case (Cons y ys)
    with Cons.prems Cons.IH show ?thesis by (simp add: split_on_append)
  qed
qed

lemma key_name_no_semicolon: "CHR '';'' \<notin> set (key_name k)"
  by (cases k) simp_all

section \<open>The calendar\<close>

text \<open>
  \<open>YearFromDay\<close> is the year function of the standard: the one year \<open>y\<close> with
  \<open>DayFromYear y \<le> d < DayFromYear (y + 1)\<close>.
\<close>

lemma div_succ:
  fixes a k :: int
  assumes "0 < k"
  shows "(a + 1) div k = a div k + (if (a + 1) mod k = 0 then 1 else 0)"
proof -
  let ?q = "a div k" and ?r = "a mod k"
  have r: "0 \<le> ?r" "?r < k" using assms by simp_all
  show ?thesis
  proof (cases "?r + 1 = k")
    case True
    then have "a + 1 = ?q * k + k" using div_mult_mod_eq [of a k] by linarith
    then have "a + 1 = (?q + 1) * k" by (simp add: distrib_right)
    then show ?thesis using assms by simp
  next
    case False
    then have lt: "?r + 1 < k" using r by linarith
    have e: "a + 1 = (?r + 1) + ?q * k" using div_mult_mod_eq [of a k] by linarith
    have t: "(?r + 1) div k = 0" "(?r + 1) mod k = ?r + 1"
      using lt r by (simp_all add: div_pos_pos_trivial mod_pos_pos_trivial)
    have "(a + 1) div k = ((?r + 1) + ?q * k) div k" by (simp only: e [symmetric])
    also have "\<dots> = ?q + (?r + 1) div k" using assms by (simp only: div_mult_self1)
    finally have d: "(a + 1) div k = ?q" using t by simp
    have "(a + 1) mod k = ((?r + 1) + ?q * k) mod k" by (simp only: e [symmetric])
    also have "\<dots> = (?r + 1) mod k" by (simp only: mod_mult_self1)
    finally have m: "(a + 1) mod k = ?r + 1" using t by simp
    from d m r show ?thesis by simp
  qed
qed

lemma mod_shift:
  "(y - 1968) mod 4 = y mod 4" "(y - 1900) mod 100 = y mod 100" "(y - 1600) mod 400 = y mod 400"
  for y :: int
proof -
  have "(y - 1968) mod 4 = (y + 4 * (- 492)) mod 4" by simp
  also have "\<dots> = y mod 4" by (rule mod_mult_self2)
  finally show "(y - 1968) mod 4 = y mod 4" .
  have "(y - 1900) mod 100 = (y + 100 * (- 19)) mod 100" by simp
  also have "\<dots> = y mod 100" by (rule mod_mult_self2)
  finally show "(y - 1900) mod 100 = y mod 100" .
  have "(y - 1600) mod 400 = (y + 400 * (- 4)) mod 400" by simp
  also have "\<dots> = y mod 400" by (rule mod_mult_self2)
  finally show "(y - 1600) mod 400 = y mod 400" .
qed

lemma mod_400_100: "y mod 400 = 0 \<Longrightarrow> y mod 100 = 0" for y :: int
proof -
  assume "y mod 400 = 0"
  then have "400 dvd y" by (simp add: dvd_eq_mod_eq_0)
  moreover have "(100 :: int) dvd 400" by simp
  ultimately have "100 dvd y" by (rule dvd_trans [rotated])
  then show ?thesis by (simp add: dvd_eq_mod_eq_0)
qed

lemma mod_100_4: "y mod 100 = 0 \<Longrightarrow> y mod 4 = 0" for y :: int
proof -
  assume "y mod 100 = 0"
  then have "100 dvd y" by (simp add: dvd_eq_mod_eq_0)
  moreover have "(4 :: int) dvd 100" by simp
  ultimately have "4 dvd y" by (rule dvd_trans [rotated])
  then show ?thesis by (simp add: dvd_eq_mod_eq_0)
qed

lemma div_succ_year:
  "(y + 1 - 1969) div 4 = (y - 1969) div 4 + (if y mod 4 = 0 then 1 else 0)"
  "(y + 1 - 1901) div 100 = (y - 1901) div 100 + (if y mod 100 = 0 then 1 else 0)"
  "(y + 1 - 1601) div 400 = (y - 1601) div 400 + (if y mod 400 = 0 then 1 else 0)"
  for y :: int
proof -
  have "(y + 1 - 1969) div 4 = ((y - 1969) + 1) div 4" by simp
  also have "\<dots> = (y - 1969) div 4 + (if ((y - 1969) + 1) mod 4 = 0 then 1 else 0)"
    by (rule div_succ) simp
  also have "(y - 1969) + 1 = y - 1968" by simp
  finally show "(y + 1 - 1969) div 4 = (y - 1969) div 4 + (if y mod 4 = 0 then 1 else 0)"
    by (simp only: mod_shift)
  have "(y + 1 - 1901) div 100 = ((y - 1901) + 1) div 100" by simp
  also have "\<dots> = (y - 1901) div 100 + (if ((y - 1901) + 1) mod 100 = 0 then 1 else 0)"
    by (rule div_succ) simp
  also have "(y - 1901) + 1 = y - 1900" by simp
  finally show "(y + 1 - 1901) div 100 = (y - 1901) div 100 + (if y mod 100 = 0 then 1 else 0)"
    by (simp only: mod_shift)
  have "(y + 1 - 1601) div 400 = ((y - 1601) + 1) div 400" by simp
  also have "\<dots> = (y - 1601) div 400 + (if ((y - 1601) + 1) mod 400 = 0 then 1 else 0)"
    by (rule div_succ) simp
  also have "(y - 1601) + 1 = y - 1600" by simp
  finally show "(y + 1 - 1601) div 400 = (y - 1601) div 400 + (if y mod 400 = 0 then 1 else 0)"
    by (simp only: mod_shift)
qed

lemma DayFromYear_step: "DayFromYear (y + 1) = DayFromYear y + 365 + InLeapYear y"
proof -
  consider (c400) "y mod 400 = 0" | (c100) "y mod 400 \<noteq> 0" "y mod 100 = 0"
    | (c4) "y mod 100 \<noteq> 0" "y mod 4 = 0" | (c1) "y mod 4 \<noteq> 0"
    by blast
  then show ?thesis
  proof cases
    case c400
    then have "y mod 100 = 0" by (rule mod_400_100)
    then have "y mod 4 = 0" by (rule mod_100_4)
    with c400 \<open>y mod 100 = 0\<close> show ?thesis
      unfolding DayFromYear_def InLeapYear_def div_succ_year by simp
  next
    case c100
    then have "y mod 4 = 0" by (intro mod_100_4)
    with c100 show ?thesis
      unfolding DayFromYear_def InLeapYear_def div_succ_year by simp
  next
    case c4
    have "y mod 400 \<noteq> 0" using c4(1) by (auto dest: mod_400_100)
    with c4 show ?thesis
      unfolding DayFromYear_def InLeapYear_def div_succ_year by simp
  next
    case c1
    have "y mod 100 \<noteq> 0" using c1 by (auto dest: mod_100_4)
    moreover have "y mod 400 \<noteq> 0" using \<open>y mod 100 \<noteq> 0\<close> by (auto dest: mod_400_100)
    ultimately show ?thesis using c1
      unfolding DayFromYear_def InLeapYear_def div_succ_year by simp
  qed
qed

lemma floor_bounds:
  fixes a k :: int
  assumes "0 < k"
  shows "k * (a div k) \<le> a" and "a - (k - 1) \<le> k * (a div k)"
proof -
  have "k * (a div k) + a mod k = a" by simp
  moreover have "0 \<le> a mod k" "a mod k < k" using assms by simp_all
  ultimately show "k * (a div k) \<le> a" and "a - (k - 1) \<le> k * (a div k)" by linarith+
qed

lemma DayFromYear_expand:
  "400 * DayFromYear y =
     146000 * y - 287620000 + 400 * ((y - 1969) div 4) - 400 * ((y - 1901) div 100)
       + 400 * ((y - 1601) div 400)"
  by (simp add: DayFromYear_def algebra_simps)

lemma DayFromYear_upper: "400 * DayFromYear y \<le> 146097 * (y - 1970) + 589"
proof -
  define A B C where "A = (y - 1969) div 4" and "B = (y - 1901) div 100" and "C = (y - 1601) div 400"
  have "4 * A \<le> y - 1969" unfolding A_def by (rule floor_bounds) simp
  then have a: "400 * A \<le> 100 * y - 196900" by linarith
  have "y - 1901 - (100 - 1) \<le> 100 * B" unfolding B_def by (rule floor_bounds) simp
  then have b: "4 * y - 8000 \<le> 400 * B" by linarith
  have c: "400 * C \<le> y - 1601" unfolding C_def by (rule floor_bounds) simp
  have "400 * DayFromYear y = 146000 * y - 287620000 + 400 * A - 400 * B + 400 * C"
    unfolding A_def B_def C_def by (rule DayFromYear_expand)
  also have "\<dots> \<le> 146000 * y - 287620000 + (100 * y - 196900) - (4 * y - 8000) + (y - 1601)"
    using a b c by linarith
  also have "\<dots> = 146097 * (y - 1970) + 589" by (simp add: algebra_simps)
  finally show ?thesis .
qed

lemma DayFromYear_lower: "146097 * (y - 1970) - 506 \<le> 400 * DayFromYear y"
proof -
  define A B C where "A = (y - 1969) div 4" and "B = (y - 1901) div 100" and "C = (y - 1601) div 400"
  have "y - 1969 - (4 - 1) \<le> 4 * A" unfolding A_def by (rule floor_bounds) simp
  then have a: "100 * y - 197200 \<le> 400 * A" by linarith
  have "100 * B \<le> y - 1901" unfolding B_def by (rule floor_bounds) simp
  then have b: "400 * B \<le> 4 * y - 7604" by linarith
  have "y - 1601 - (400 - 1) \<le> 400 * C" unfolding C_def by (rule floor_bounds) simp
  then have c: "y - 2000 \<le> 400 * C" by linarith
  have "146097 * (y - 1970) - 506 = 146000 * y - 287620000 + (100 * y - 197200) - (4 * y - 7604) + (y - 2000)"
    by (simp add: algebra_simps)
  also have "\<dots> \<le> 146000 * y - 287620000 + 400 * A - 400 * B + 400 * C"
    using a b c by linarith
  also have "\<dots> = 400 * DayFromYear y"
    unfolding A_def B_def C_def by (rule DayFromYear_expand [symmetric])
  finally show ?thesis .
qed

lemma YearFromDay_bounds:
  "DayFromYear (YearFromDay d) \<le> d \<and> d < DayFromYear (YearFromDay d + 1)"
proof -
  define q where "q = (d * 400) div 146097"
  define y where "y = 1970 + q"
  have f1: "146097 * q \<le> d * 400" unfolding q_def by (rule floor_bounds) simp
  have f2: "d * 400 - (146097 - 1) \<le> 146097 * q" unfolding q_def by (rule floor_bounds) simp
  have "400 * DayFromYear (y - 1) \<le> 146097 * (y - 1 - 1970) + 589" by (rule DayFromYear_upper)
  also have "\<dots> = 146097 * q - 145508" by (simp add: y_def algebra_simps)
  also have "\<dots> \<le> 400 * d" using f1 by linarith
  finally have lo: "DayFromYear (y - 1) \<le> d" by simp
  have "400 * d < 146097 * q + 291688" using f2 by linarith
  also have "\<dots> = 146097 * (y + 2 - 1970) - 506" by (simp add: y_def algebra_simps)
  also have "\<dots> \<le> 400 * DayFromYear (y + 2)" by (rule DayFromYear_lower)
  finally have hi: "d < DayFromYear (y + 2)" by simp
  have y2: "y + 1 + 1 = y + 2" "y - 1 + 1 = y" by simp_all
  show ?thesis
    unfolding YearFromDay_def Let_def q_def [symmetric] y_def [symmetric]
    using lo hi by (simp add: y2)
qed

lemma DayFromYear_mono_nat: "DayFromYear y \<le> DayFromYear (y + int n)"
proof (induction n)
  case 0
  then show ?case by simp
next
  case (Suc n)
  have "y + int (Suc n) = y + int n + 1" by simp
  then have "DayFromYear (y + int (Suc n)) = DayFromYear (y + int n + 1)" by (simp only:)
  also have "\<dots> = DayFromYear (y + int n) + 365 + InLeapYear (y + int n)"
    by (rule DayFromYear_step)
  finally show ?case using Suc by (simp add: InLeapYear_def)
qed

lemma DayFromYear_mono: "a \<le> b \<Longrightarrow> DayFromYear a \<le> DayFromYear b"
  using DayFromYear_mono_nat [of a "nat (b - a)"] by simp

lemma DayFromYear_strict: "DayFromYear y < DayFromYear (y + 1)"
  by (simp add: DayFromYear_step InLeapYear_def)

lemma YearFromDay_unique:
  assumes "DayFromYear y \<le> d" "d < DayFromYear (y + 1)"
  shows "YearFromDay d = y"
proof -
  let ?z = "YearFromDay d"
  have z: "DayFromYear ?z \<le> d" "d < DayFromYear (?z + 1)" using YearFromDay_bounds by simp_all
  have "\<not> ?z < y"
  proof
    assume "?z < y"
    then have "DayFromYear (?z + 1) \<le> DayFromYear y" by (intro DayFromYear_mono) simp
    with z assms show False by linarith
  qed
  moreover have "\<not> y < ?z"
  proof
    assume "y < ?z"
    then have "DayFromYear (y + 1) \<le> DayFromYear ?z" by (intro DayFromYear_mono) simp
    with z assms show False by linarith
  qed
  ultimately show ?thesis by linarith
qed

lemma InLeapYear_cases: "InLeapYear y = 0 \<or> InLeapYear y = 1"
  by (simp add: InLeapYear_def)

lemma DayWithinYear_bounds:
  "0 \<le> DayWithinYear t" "DayWithinYear t < 365 + InLeapYear (YearFromTime t)"
proof -
  have b: "DayFromYear (YearFromDay (Day t)) \<le> Day t"
      "Day t < DayFromYear (YearFromDay (Day t) + 1)"
    using YearFromDay_bounds [of "Day t"] by simp_all
  show "0 \<le> DayWithinYear t" using b(1) by (simp add: DayWithinYear_def YearFromTime_def)
  show "DayWithinYear t < 365 + InLeapYear (YearFromTime t)"
    using b(2) by (simp add: DayWithinYear_def YearFromTime_def DayFromYear_step)
qed

lemma MonthFromTime_range: "0 \<le> MonthFromTime t" "MonthFromTime t \<le> 11"
  by (simp_all add: MonthFromTime_def Let_def)

lemma DateFromTime_range: "1 \<le> DateFromTime t" "DateFromTime t \<le> 31"
proof -
  define d L where "d = DayWithinYear t" and "L = InLeapYear (YearFromTime t)"
  have d: "0 \<le> d" "d < 365 + L" unfolding d_def L_def by (rule DayWithinYear_bounds)+
  have L: "L = 0 \<or> L = 1" unfolding L_def by (rule InLeapYear_cases)
  have "1 \<le> DateFromTime t \<and> DateFromTime t \<le> 31"
    unfolding DateFromTime_def MonthFromTime_def Let_def d_def [symmetric] L_def [symmetric]
    using d L by auto
  then show "1 \<le> DateFromTime t" "DateFromTime t \<le> 31" by simp_all
qed

lemma YearFromDay_ge: "DayFromYear y \<le> d \<Longrightarrow> y \<le> YearFromDay d"
proof (rule ccontr)
  assume a: "DayFromYear y \<le> d" and "\<not> y \<le> YearFromDay d"
  then have "YearFromDay d + 1 \<le> y" by simp
  then have "DayFromYear (YearFromDay d + 1) \<le> DayFromYear y" by (rule DayFromYear_mono)
  with a YearFromDay_bounds [of d] show False by linarith
qed

lemma YearFromDay_less: "d < DayFromYear y \<Longrightarrow> YearFromDay d < y"
proof (rule ccontr)
  assume a: "d < DayFromYear y" and "\<not> YearFromDay d < y"
  then have "y \<le> YearFromDay d" by simp
  then have "DayFromYear y \<le> DayFromYear (YearFromDay d)" by (rule DayFromYear_mono)
  with a YearFromDay_bounds [of d] show False by linarith
qed

lemma digits_1: "n < 10 \<Longrightarrow> digits n = [digit_char n]"
  by (subst digits.simps) simp

lemma digits_2: "10 \<le> n \<Longrightarrow> n < 100 \<Longrightarrow> digits n = [digit_char (n div 10), digit_char (n mod 10)]"
  by (subst digits.simps) (simp add: digits_1)

lemma digits_3:
  "100 \<le> n \<Longrightarrow> n < 1000 \<Longrightarrow>
   digits n = [digit_char (n div 100), digit_char (n div 10 mod 10), digit_char (n mod 10)]"
  by (subst digits.simps) (simp add: digits_2 div_mult2_eq [symmetric])

lemma digits_4:
  "1000 \<le> n \<Longrightarrow> n < 10000 \<Longrightarrow>
   digits n = [digit_char (n div 1000), digit_char (n div 100 mod 10),
               digit_char (n div 10 mod 10), digit_char (n mod 10)]"
  by (subst digits.simps) (simp add: digits_3 div_mult2_eq [symmetric])

section \<open>Status codes (claim C1)\<close>

lemma request_envelope:
  assumes "fetch h url = Inr resp" "ok resp" "parseXML h (text_body resp) = Inr doc"
    "doc_querySelector2 ''DataRoot'' ''Result'' doc = Some env" "Result_fromElement env = Inr r"
  shows "snd (request h url) =
           Inr \<lparr>code = code r, message = message r,
                data = doc_querySelector2 ''DataRoot'' ''ApplData'' doc\<rparr>"
  using assms by (simp add: request_def onElement_def)

text \<open>
  Claim C1.  Let the transport answer the operation's URL with an \<^verbatim>\<open>ok\<close> response, let
  its text parse to a document without a parser error, and let the document's envelope
  (\<^verbatim>\<open>DataRoot Result\<close>) decode to the code and message \<open>r\<close>.  Then
  \<^verbatim>\<open>getLawlists\<close>, \<^verbatim>\<open>getLawdata\<close> and \<^verbatim>\<open>getUpdatelawlists\<close> (given a date in range)
  return what the entity decoder makes of the payload when the code is 0, and fail with
  \<^verbatim>\<open>Error(message)\<close> for every other code; \<^verbatim>\<open>getArticles\<close> does the same with the
  codes 0 and 2 accepted.
\<close>

theorem status_code_acceptance:
  assumes "fetch h url = Inr resp" "ok resp" "parseXML h (text_body resp) = Inr doc"
    "doc_querySelector2 ''DataRoot'' ''Result'' doc = Some env" "Result_fromElement env = Inr r"
  shows "(url = getLawlists_uri t \<longrightarrow>
            snd (getLawlists h t) =
              (if code r = Num 0
               then onElement (Lawlists_fromElement h) (doc_querySelector2 ''DataRoot'' ''ApplData'' doc)
               else Inl (Error (message r))))
       \<and> (url = getLawdata_uri ident \<longrightarrow>
            snd (getLawdata h ident) =
              (if code r = Num 0
               then onElement Lawdata_fromElement (doc_querySelector2 ''DataRoot'' ''ApplData'' doc)
               else Inl (Error (message r))))
       \<and> (url = getUpdatelawlists_uri h date \<and> \<not> date_less date (min_date h)
            \<and> \<not> date_less (Date (now h)) date \<longrightarrow>
            snd (getUpdatelawlists h date) =
              (if code r = Num 0
               then onElement (Updatelawlists_fromElement h) (doc_querySelector2 ''DataRoot'' ''ApplData'' doc)
               else Inl (Error (message r))))
       \<and> (url = getArticles_uri params \<longrightarrow>
            snd (getArticles h params) =
              (if code r = Num 0 \<or> code r = Num 2
               then onElement Articles_fromElement (doc_querySelector2 ''DataRoot'' ''ApplData'' doc)
               else Inl (Error (message r))))"
  using request_envelope [OF assms]
  by (auto simp: getLawlists_def getLawdata_def getUpdatelawlists_def getArticles_def Let_def)

lemma sample_document_envelope:
  "doc_querySelector2 ''DataRoot'' ''Result'' (sample_document c m payload) =
     Some (Element ''Result'' [Element ''Code'' [Text c], Element ''Message'' [Text m]])"
  by (simp add: sample_document_def)

lemma sample_envelope_decoded:
  "Result_fromElement (Element ''Result'' [Element ''Code'' [Text c], Element ''Message'' [Text m]]) =
     Inr \<lparr>code = parseInt c, message = m\<rparr>"
  by (simp add: Result_fromElement_def textOf_def querySelector_def)

lemma sample_host_fetch:
  "fetch (sample_host clock zone doc) url = Inr \<lparr>ok = True, text_body = ''<DataRoot/>''\<rparr>"
  by (simp add: sample_host_def)

lemma sample_host_parseXML_empty:
  "parseXML (sample_host clock zone (sample_document c m [])) xml = Inr (sample_document c m [])"
  by (simp add: parseXML_def sample_host_def sample_document_def)

lemma sample_host_parseXML_candidates:
  "parseXML (sample_host clock zone (sample_document c m articles_payload_candidates)) xml =
     Inr (sample_document c m articles_payload_candidates)"
  by (simp add: parseXML_def sample_host_def sample_document_def articles_payload_candidates_def)

lemma sample_host_parseXML_lawdata:
  "parseXML (sample_host clock zone
       (sample_document c m
          [Element ''LawId'' [Text ''a''], Element ''LawNum'' [Text ''n''],
           Element ''LawFullText'' [Text ''t'']])) xml =
     Inr (sample_document c m
          [Element ''LawId'' [Text ''a''], Element ''LawNum'' [Text ''n''],
           Element ''LawFullText'' [Text ''t'']])"
  by (simp add: parseXML_def sample_host_def sample_document_def)

lemma sample_host_parseXML_update:
  "parseXML (sample_host clock zone (sample_document c m [Element ''Date'' [Text ''20201124'']])) xml =
     Inr (sample_document c m [Element ''Date'' [Text ''20201124'']])"
  by (simp add: parseXML_def sample_host_def sample_document_def)

lemma parseInt_20201124: "parseInt ''20201124'' = Num 20201124"
  using parseInt_show_int [of 20201124]
  by (simp add: show_int_def digits.simps digit_char_def to_double_small)

text \<open>
  The theorem at an envelope with code 1, which \<^verbatim>\<open>getLawlists\<close> rejects with the
  envelope's message; at envelopes with code 0, which \<^verbatim>\<open>getLawdata\<close> and
  \<^verbatim>\<open>getUpdatelawlists\<close> accept; and at an envelope with code 2, which
  \<^verbatim>\<open>getArticles\<close> accepts, decoding the candidate titles in order.
\<close>

theorem status_code_acceptance_witness:
  "snd (getLawlists (sample_host 1700000000000 32400000 (sample_document ''1'' ''no data'' []))
         ZenHourei) = Inl (Error ''no data'')
   \<and> snd (getLawdata
           (sample_host 1700000000000 32400000
              (sample_document ''0'' ''''
                 [Element ''LawId'' [Text ''a''], Element ''LawNum'' [Text ''n''],
                  Element ''LawFullText'' [Text ''t'']]))
           ''n'') =
       Inr \<lparr>Lawdata_LawId = ''a'', Lawdata_LawNum = ''n'', Lawdata_LawFullText = ''t'',
            Lawdata_ImageData = Undefined\<rparr>
   \<and> snd (getUpdatelawlists
           (sample_host 1700000000000 32400000
              (sample_document ''0'' '''' [Element ''Date'' [Text ''20201124'']]))
           (Date 1606143600000)) =
       Inr \<lparr>Updatelawlists_Date = Num 20201124, Updatelawlists_LawNameListInfo = Value []\<rparr>
   \<and> snd (getArticles
           (sample_host 1700000000000 32400000
              (sample_document ''2'' ''candidates'' articles_payload_candidates))
           [(Key_lawId, ''a''), (Key_appdxTable, ''t'')]) =
       Inr \<lparr>Articles_LawId = ''a'', Articles_LawNum = ''n'', Articles_Article = '''',
            Articles_Paragraph = '''', Articles_AppdxTable = ''t'', Articles_LawContents = '''',
            Articles_AppdxTableTitleLists = Value \<lparr>AppdxTableTitle = [''t1'', ''t2'']\<rparr>,
            Articles_ImageData = Undefined\<rparr>"
proof -
  have a: "snd (getLawlists (sample_host 1700000000000 32400000 (sample_document ''1'' ''no data'' []))
         ZenHourei) = Inl (Error ''no data'')"
    using status_code_acceptance
      [where h = "sample_host 1700000000000 32400000 (sample_document ''1'' ''no data'' [])"
         and url = "getLawlists_uri ZenHourei" and t = ZenHourei
         and resp = "\<lparr>ok = True, text_body = ''<DataRoot/>''\<rparr>"
         and doc = "sample_document ''1'' ''no data'' []"
         and env = "Element ''Result'' [Element ''Code'' [Text ''1''], Element ''Message'' [Text ''no data'']]"
         and r = "\<lparr>code = Num 1, message = ''no data''\<rparr>"]
    by (simp add: sample_host_fetch sample_host_parseXML_empty sample_document_envelope
          sample_envelope_decoded parseInt_small)
  have b: "snd (getLawdata
           (sample_host 1700000000000 32400000
              (sample_document ''0'' ''''
                 [Element ''LawId'' [Text ''a''], Element ''LawNum'' [Text ''n''],
                  Element ''LawFullText'' [Text ''t'']]))
           ''n'') =
       onElement Lawdata_fromElement
         (doc_querySelector2 ''DataRoot'' ''ApplData''
            (sample_document ''0'' ''''
                 [Element ''LawId'' [Text ''a''], Element ''LawNum'' [Text ''n''],
                  Element ''LawFullText'' [Text ''t'']]))"
    using status_code_acceptance
      [where h = "sample_host 1700000000000 32400000
              (sample_document ''0'' ''''
                 [Element ''LawId'' [Text ''a''], Element ''LawNum'' [Text ''n''],
                  Element ''LawFullText'' [Text ''t'']])"
         and url = "getLawdata_uri ''n''" and ident = "''n''"
         and resp = "\<lparr>ok = True, text_body = ''<DataRoot/>''\<rparr>"
         and doc = "sample_document ''0'' ''''
                 [Element ''LawId'' [Text ''a''], Element ''LawNum'' [Text ''n''],
                  Element ''LawFullText'' [Text ''t'']]"
         and env = "Element ''Result'' [Element ''Code'' [Text ''0''], Element ''Message'' [Text '''']]"
         and r = "\<lparr>code = Num 0, message = ''''\<rparr>"]
    by (simp add: sample_host_fetch sample_host_parseXML_lawdata sample_document_envelope
          sample_envelope_decoded parseInt_small)
  have b': "onElement Lawdata_fromElement
         (doc_querySelector2 ''DataRoot'' ''ApplData''
            (sample_document ''0'' ''''
                 [Element ''LawId'' [Text ''a''], Element ''LawNum'' [Text ''n''],
                  Element ''LawFullText'' [Text ''t'']])) =
       Inr \<lparr>Lawdata_LawId = ''a'', Lawdata_LawNum = ''n'', Lawdata_LawFullText = ''t'',
            Lawdata_ImageData = Undefined\<rparr>"
    by (simp add: sample_document_def onElement_def Lawdata_fromElement_def textOf_def
          optTextOf_def assigned_def querySelector_def)
  have c: "snd (getUpdatelawlists
           (sample_host 1700000000000 32400000
              (sample_document ''0'' '''' [Element ''Date'' [Text ''20201124'']]))
           (Date 1606143600000)) =
       onElement (Updatelawlists_fromElement
            (sample_host 1700000000000 32400000
              (sample_document ''0'' '''' [Element ''Date'' [Text ''20201124'']])))
         (doc_querySelector2 ''DataRoot'' ''ApplData''
            (sample_document ''0'' '''' [Element ''Date'' [Text ''20201124'']]))"
    using status_code_acceptance
      [where h = "sample_host 1700000000000 32400000
              (sample_document ''0'' '''' [Element ''Date'' [Text ''20201124'']])"
         and url = "getUpdatelawlists_uri
              (sample_host 1700000000000 32400000
                 (sample_document ''0'' '''' [Element ''Date'' [Text ''20201124'']]))
              (Date 1606143600000)"
         and date = "Date 1606143600000"
         and resp = "\<lparr>ok = True, text_body = ''<DataRoot/>''\<rparr>"
         and doc = "sample_document ''0'' '''' [Element ''Date'' [Text ''20201124'']]"
         and env = "Element ''Result'' [Element ''Code'' [Text ''0''], Element ''Message'' [Text '''']]"
         and r = "\<lparr>code = Num 0, message = ''''\<rparr>"]
    by (simp add: sample_host_fetch sample_host_parseXML_update sample_document_envelope
          sample_envelope_decoded parseInt_small min_date_value)
       (simp add: sample_host_def)
  have c': "onElement (Updatelawlists_fromElement
            (sample_host 1700000000000 32400000
              (sample_document ''0'' '''' [Element ''Date'' [Text ''20201124'']])))
         (doc_querySelector2 ''DataRoot'' ''ApplData''
            (sample_document ''0'' '''' [Element ''Date'' [Text ''20201124'']])) =
       Inr \<lparr>Updatelawlists_Date = Num 20201124, Updatelawlists_LawNameListInfo = Value []\<rparr>"
    by (simp add: sample_document_def onElement_def Updatelawlists_fromElement_def textOf_def
          querySelector_def parseInt_20201124)
  have d: "snd (getArticles
           (sample_host 1700000000000 32400000
              (sample_document ''2'' ''candidates'' articles_payload_candidates))
           [(Key_lawId, ''a''), (Key_appdxTable, ''t'')]) =
       onElement Articles_fromElement
         (doc_querySelector2 ''DataRoot'' ''ApplData''
            (sample_document ''2'' ''candidates'' articles_payload_candidates))"
    using status_code_acceptance
      [where h = "sample_host 1700000000000 32400000
              (sample_document ''2'' ''candidates'' articles_payload_candidates)"
         and url = "getArticles_uri [(Key_lawId, ''a''), (Key_appdxTable, ''t'')]"
         and params = "[(Key_lawId, ''a''), (Key_appdxTable, ''t'')]"
         and resp = "\<lparr>ok = True, text_body = ''<DataRoot/>''\<rparr>"
         and doc = "sample_document ''2'' ''candidates'' articles_payload_candidates"
         and env = "Element ''Result'' [Element ''Code'' [Text ''2''], Element ''Message'' [Text ''candidates'']]"
         and r = "\<lparr>code = Num 2, message = ''candidates''\<rparr>"]
    by (simp add: sample_host_fetch sample_host_parseXML_candidates sample_document_envelope
          sample_envelope_decoded parseInt_small)
  have d': "onElement Articles_fromElement
         (doc_querySelector2 ''DataRoot'' ''ApplData''
            (sample_document ''2'' ''candidates'' articles_payload_candidates)) =
       Inr \<lparr>Articles_LawId = ''a'', Articles_LawNum = ''n'', Articles_Article = '''',
            Articles_Paragraph = '''', Articles_AppdxTable = ''t'', Articles_LawContents = '''',
            Articles_AppdxTableTitleLists = Value \<lparr>AppdxTableTitle = [''t1'', ''t2'']\<rparr>,
            Articles_ImageData = Undefined\<rparr>"
    by (simp add: sample_document_def articles_payload_candidates_def onElement_def
          Articles_fromElement_def textOf_def optTextOf_def assigned_def querySelector_def)
  from a b b' c c' d d' show ?thesis by simp
qed

section \<open>The date range of the update list (claim C2)\<close>

text \<open>
  Claim C2.  The instant 2020-11-24T00:00:00+09:00 is the time value 1606143600000.
  On a host whose clock has reached that instant: a date before it is rejected with the
  first reason; a date after the clock's instant is rejected with the second reason; in
  both cases the transport is not invoked.  A date from that instant up to the clock's
  instant goes to the transport, once, with the update-list URL.  The two reasons
  differ.  (The check against the lower bound comes first; the clock is taken to have
  reached the lower bound, as it has on every host since that day, so that no date is
  both too early and in the future.)
\<close>

theorem getUpdatelawlists_date_range:
  assumes "\<not> date_less (Date (now h)) (min_date h)"
  shows "min_date h = Date 1606143600000
   \<and> (t < 1606143600000 \<longrightarrow>
        getUpdatelawlists h (Date t) = ([], Inl (RangeError reason_too_early)))
   \<and> (now h < t \<longrightarrow>
        getUpdatelawlists h (Date t) = ([], Inl (RangeError reason_future)))
   \<and> (1606143600000 \<le> t \<and> t \<le> now h \<longrightarrow>
        fst (getUpdatelawlists h (Date t)) = [getUpdatelawlists_uri h (Date t)])
   \<and> reason_too_early \<noteq> reason_future"
  using assms
  by (simp add: getUpdatelawlists_def min_date_value reasons_distinct fst_request Let_def)

text \<open>
  The theorem on a host whose clock reads 1700000000000 (14 November 2023): at the
  millisecond before the lower bound, at the millisecond after the clock's instant, and
  at the clock's instant itself.
\<close>

theorem getUpdatelawlists_date_range_witness:
  "\<not> date_less (Date (now (sample_host 1700000000000 32400000 (Document []))))
        (min_date (sample_host 1700000000000 32400000 (Document [])))
   \<and> (1606143599999 :: int) < 1606143600000
   \<and> getUpdatelawlists (sample_host 1700000000000 32400000 (Document [])) (Date 1606143599999) =
       ([], Inl (RangeError reason_too_early))
   \<and> now (sample_host 1700000000000 32400000 (Document [])) < 1700000000001
   \<and> getUpdatelawlists (sample_host 1700000000000 32400000 (Document [])) (Date 1700000000001) =
       ([], Inl (RangeError reason_future))
   \<and> (1606143600000 :: int) \<le> 1700000000000
   \<and> 1700000000000 \<le> now (sample_host 1700000000000 32400000 (Document []))
   \<and> fst (getUpdatelawlists (sample_host 1700000000000 32400000 (Document [])) (Date 1700000000000)) =
       [getUpdatelawlists_uri (sample_host 1700000000000 32400000 (Document [])) (Date 1700000000000)]"
proof -
  have clock: "\<not> date_less (Date (now (sample_host 1700000000000 32400000 (Document []))))
        (min_date (sample_host 1700000000000 32400000 (Document [])))"
    by (simp add: min_date_value sample_host_def)
  from getUpdatelawlists_date_range [OF clock, of 1606143599999]
       getUpdatelawlists_date_range [OF clock, of 1700000000001]
       getUpdatelawlists_date_range [OF clock, of 1700000000000]
       clock
  show ?thesis by (simp add: sample_host_def)
qed

section \<open>The date in the update-list path (claims C3 and C4)\<close>

lemma date_fields_utc:
  "YearFromTime 1606143600000 = 2020" "MonthFromTime 1606143600000 = 10"
  "DateFromTime 1606143600000 = 23"
  by (simp_all add: YearFromTime_def YearFromDay_def Day_def msPerDay_def DayFromYear_def
        MonthFromTime_def DateFromTime_def DayWithinYear_def InLeapYear_def)

lemma date_fields_new_york:
  "YearFromTime 1606125600000 = 2020" "MonthFromTime 1606125600000 = 10"
  "DateFromTime 1606125600000 = 23"
  by (simp_all add: YearFromTime_def YearFromDay_def Day_def msPerDay_def DayFromYear_def
        MonthFromTime_def DateFromTime_def DayWithinYear_def InLeapYear_def)

lemma date_fields_jst:
  "YearFromTime 1606176000000 = 2020" "MonthFromTime 1606176000000 = 10"
  "DateFromTime 1606176000000 = 24"
  by (simp_all add: YearFromTime_def YearFromDay_def Day_def msPerDay_def DayFromYear_def
        MonthFromTime_def DateFromTime_def DayWithinYear_def InLeapYear_def)

lemma show_int_samples:
  "show_int 2020 = ''2020''" "show_int 11 = ''11''" "show_int 23 = ''23''" "show_int 24 = ''24''"
  by (simp_all add: show_int_def digits.simps digit_char_def)

lemma PromulgationDate_of_20201124: "PromulgationDate_of h ''20201124'' = Date 1606143600000"
  by (simp add: PromulgationDate_of_def slice_def Date_parse_def dec_def radix_value_def
        digit_of_def MakeDay_def DayFromYear_def DaysBeforeMonth_def DaysInMonth_def
        InLeapYear_def msPerDay_def)

text \<open>
  Claim C3 does not hold of the code.  The path is built with \<^verbatim>\<open>getFullYear\<close>,
  \<^verbatim>\<open>getMonth\<close> and \<^verbatim>\<open>getDate\<close>, which read the date in the host's local time zone,
  not at UTC+9.  On a host at UTC the earliest valid date, 2020-11-24T00:00:00+09:00,
  passes the range check and is requested as \<^verbatim>\<open>20201123\<close>, while its calendar date at
  UTC+9 is 2020-11-24 (month 10 counted from 0).
\<close>

theorem update_list_path_on_utc_host:
  "date_less (Date 1606143600000) (min_date (sample_host 1700000000000 0 (Document []))) = False
   \<and> date_less (Date (now (sample_host 1700000000000 0 (Document [])))) (Date 1606143600000) = False
   \<and> fst (getUpdatelawlists (sample_host 1700000000000 0 (Document [])) (Date 1606143600000)) =
       [''https://elaws.e-gov.go.jp/api/1/updatelawlists/20201123'']
   \<and> YearFromTime (1606143600000 + 32400000) = 2020
   \<and> MonthFromTime (1606143600000 + 32400000) = 10
   \<and> DateFromTime (1606143600000 + 32400000) = 24"
  by (simp add: getUpdatelawlists_def min_date_value fst_request Let_def
        getUpdatelawlists_uri_def sample_host_def LocalTime_def date_fields_utc date_fields_jst
        to_double_small show_int_samples slice_def baseUrl_def show_int_def digits.simps
        digit_char_def)

text \<open>
  Claim C4 does not hold of the code either, for the same reason.  The decoder turns
  \<^verbatim>\<open>20201124\<close> into the instant 2020-11-24T00:00:00+09:00, whatever the host; the path
  encoder, on a host at UTC-5, turns that date into \<^verbatim>\<open>20201123\<close>.
\<close>

theorem promulgation_date_round_trip_on_new_york_host:
  "PromulgationDate_of (sample_host 1700000000000 (- 18000000) (Document [])) ''20201124'' =
       Date 1606143600000
   \<and> getUpdatelawlists_uri (sample_host 1700000000000 (- 18000000) (Document []))
        (PromulgationDate_of (sample_host 1700000000000 (- 18000000) (Document [])) ''20201124'') =
       ''https://elaws.e-gov.go.jp/api/1/updatelawlists/20201123''"
  by (simp add: PromulgationDate_of_20201124
        getUpdatelawlists_uri_def sample_host_def LocalTime_def date_fields_new_york
        to_double_small show_int_samples slice_def baseUrl_def show_int_def digits.simps
        digit_char_def)

text \<open>
  On a host at UTC+9 both come out as the claims say: the earliest valid date is
  requested as \<^verbatim>\<open>20201124\<close>, and the round trip from \<^verbatim>\<open>20201124\<close> gives \<^verbatim>\<open>20201124\<close>.
  What the encoder computes on every host is proved in the next subsection.
\<close>

theorem update_list_path_on_jst_host:
  "getUpdatelawlists_uri (sample_host 1700000000000 32400000 (Document []))
        (PromulgationDate_of (sample_host 1700000000000 32400000 (Document [])) ''20201124'') =
     ''https://elaws.e-gov.go.jp/api/1/updatelawlists/20201124''"
  by (simp add: PromulgationDate_of_20201124
        getUpdatelawlists_uri_def sample_host_def LocalTime_def date_fields_jst
        to_double_small show_int_samples slice_def baseUrl_def show_int_def digits.simps
        digit_char_def)

subsection \<open>The path encoder on every host\<close>

lemma dec_two_digits:
  assumes "a < 10" "b < 10"
  shows "dec [digit_char a, digit_char b] = int (a * 10 + b)"
  using assms by (simp add: dec_def radix_value_def digit_of_digit_char)

lemma dec_four_digits:
  assumes "a < 10" "b < 10" "c < 10" "d < 10"
  shows "dec [digit_char a, digit_char b, digit_char c, digit_char d] =
           int (((a * 10 + b) * 10 + c) * 10 + d)"
  using assms by (simp add: dec_def radix_value_def digit_of_digit_char)

lemma four_digit_value:
  fixes n :: nat
  shows "((n div 1000 * 10 + n div 100 mod 10) * 10 + n div 10 mod 10) * 10 + n mod 10 = n"
proof -
  have a: "n div 100 = (n div 10) div 10" "n div 1000 = (n div 100) div 10"
    by (simp_all add: div_mult2_eq [symmetric])
  have "n div 1000 * 10 + n div 100 mod 10 = n div 100" unfolding a(2) by simp
  then have "(n div 1000 * 10 + n div 100 mod 10) * 10 + n div 10 mod 10 = n div 10"
    unfolding a(1) by simp
  then show ?thesis by simp
qed

lemma pad2:
  assumes "0 \<le> m" "m < 100"
  shows "slice (- 2) None (''00'' @ Number_toString (Num m)) =
           [digit_char (nat m div 10), digit_char (nat m mod 10)]"
proof (cases "m < 10")
  case True
  then have "digits (nat m) = [digit_char (nat m)]" using assms by (intro digits_1) simp
  moreover have "nat m div 10 = 0" "nat m mod 10 = nat m" using True assms by simp_all
  ultimately show ?thesis using assms by (simp add: show_int_def slice_def digit_char_def)
next
  case False
  then have "digits (nat m) = [digit_char (nat m div 10), digit_char (nat m mod 10)]"
    using assms by (intro digits_2) simp_all
  then show ?thesis using assms by (simp add: show_int_def slice_def)
qed

lemma year4:
  assumes "1000 \<le> y" "y < 10000"
  shows "Number_toString (Num y) =
           [digit_char (nat y div 1000), digit_char (nat y div 100 mod 10),
            digit_char (nat y div 10 mod 10), digit_char (nat y mod 10)]"
  using assms digits_4 [of "nat y"] by (simp add: show_int_def)

lemma Day_bounds:
  "a * msPerDay \<le> t \<Longrightarrow> a \<le> Day t" "t < b * msPerDay \<Longrightarrow> Day t < b"
proof -
  have k: "msPerDay * (t div msPerDay) \<le> t" "t - (msPerDay - 1) \<le> msPerDay * (t div msPerDay)"
    by (rule floor_bounds, simp add: msPerDay_def)+
  {
    assume "a * msPerDay \<le> t"
    with k(2) have "msPerDay * a - msPerDay < msPerDay * (t div msPerDay)"
      by (simp add: mult.commute)
    then have "msPerDay * (a - 1) < msPerDay * (t div msPerDay)" by (simp add: right_diff_distrib)
    then have "a - 1 < t div msPerDay" by (simp add: msPerDay_def)
    then show "a \<le> Day t" by (simp add: Day_def)
  }
  {
    assume "t < b * msPerDay"
    with k(1) have "msPerDay * (t div msPerDay) < msPerDay * b" by (simp add: mult.commute)
    then have "t div msPerDay < b" by (simp add: msPerDay_def)
    then show "Day t < b" by (simp add: Day_def)
  }
qed

lemma YearFromTime_range:
  assumes "DayFromYear a * msPerDay \<le> t" "t < DayFromYear b * msPerDay"
  shows "a \<le> YearFromTime t" "YearFromTime t < b"
proof -
  have "DayFromYear a \<le> Day t" using assms(1) by (rule Day_bounds)
  then show "a \<le> YearFromTime t" unfolding YearFromTime_def by (rule YearFromDay_ge)
  have "Day t < DayFromYear b" using assms(2) by (rule Day_bounds)
  then show "YearFromTime t < b" unfolding YearFromTime_def by (rule YearFromDay_less)
qed

lemma DayFromYear_values: "DayFromYear 1000 = - 354285" "DayFromYear 10000 = 2932897"
  by (simp_all add: DayFromYear_def)

text \<open>
  What the path encoder does compute, on every host: for a date in the valid range whose
  local time lies in the years 1000 to 9999, the transport is invoked once, with a path
  that ends in eight decimal digits, and these are the year, the month and the day of
  the date \<^emph>\<open>in the host's local time\<close>.
\<close>

theorem update_list_path_is_local_date:
  assumes "1606143600000 \<le> t" "t \<le> now h"
    and "- 30610224000000 \<le> LocalTime h t" "LocalTime h t < 253402300800000"
  shows "\<exists>seg. fst (getUpdatelawlists h (Date t)) = [baseUrl @ ''/updatelawlists/'' @ seg]
           \<and> length seg = 8 \<and> list_all (\<lambda>c. digit_of c < 10) seg
           \<and> dec (take 4 seg) = YearFromTime (LocalTime h t)
           \<and> dec (take 2 (drop 4 seg)) = MonthFromTime (LocalTime h t) + 1
           \<and> dec (drop 6 seg) = DateFromTime (LocalTime h t)"
proof -
  define lt where "lt = LocalTime h t"
  define Y M D where "Y = YearFromTime lt" and "M = MonthFromTime lt + 1" and "D = DateFromTime lt"
  have lt: "DayFromYear 1000 * msPerDay \<le> lt" "lt < DayFromYear 10000 * msPerDay"
    using assms(3,4) by (simp_all add: lt_def DayFromYear_values msPerDay_def)
  have Y: "1000 \<le> Y" "Y < 10000" using YearFromTime_range [OF lt] by (simp_all add: Y_def)
  have M: "1 \<le> M" "M \<le> 12" using MonthFromTime_range [of lt] by (simp_all add: M_def)
  have D: "1 \<le> D" "D \<le> 31" using DateFromTime_range [of lt] by (simp_all add: D_def)
  define seg where "seg =
      [digit_char (nat Y div 1000), digit_char (nat Y div 100 mod 10),
       digit_char (nat Y div 10 mod 10), digit_char (nat Y mod 10),
       digit_char (nat M div 10), digit_char (nat M mod 10),
       digit_char (nat D div 10), digit_char (nat D mod 10)]"
  have loc: "LocalTime h t = lt" by (simp add: lt_def)
  have gy: "getFullYear h (Date t) = Num Y" by (simp add: loc Y_def)
  have gm: "number_add (getMonth h (Date t)) 1 = Num M"
    using M unfolding M_def by (simp add: loc to_double_small)
  have gd: "getDate h (Date t) = Num D" by (simp add: loc D_def)
  have M': "0 \<le> M" "M < 100" and D': "0 \<le> D" "D < 100" using M D by simp_all
  have uri: "getUpdatelawlists_uri h (Date t) = baseUrl @ ''/updatelawlists/'' @ seg"
    unfolding getUpdatelawlists_uri_def Let_def gy gm gd year4 [OF Y] pad2 [OF M'] pad2 [OF D']
      seg_def
    by simp
  have range: "\<not> date_less (Date t) (min_date h)" "\<not> date_less (Date (now h)) (Date t)"
    using assms by (simp_all add: min_date_value)
  have call: "fst (getUpdatelawlists h (Date t)) = [baseUrl @ ''/updatelawlists/'' @ seg]"
    using range by (simp add: getUpdatelawlists_def Let_def fst_request uri)
  have small: "nat Y div 1000 < 10" "nat Y div 100 mod 10 < 10" "nat Y div 10 mod 10 < 10"
      "nat Y mod 10 < 10" "nat M div 10 < 10" "nat M mod 10 < 10" "nat D div 10 < 10"
      "nat D mod 10 < 10"
    using Y M D by simp_all
  have all: "list_all (\<lambda>c. digit_of c < 10) seg"
    using small by (simp add: seg_def digit_of_digit_char)
  have y: "dec (take 4 seg) = Y"
  proof -
    have "take 4 seg =
        [digit_char (nat Y div 1000), digit_char (nat Y div 100 mod 10),
         digit_char (nat Y div 10 mod 10), digit_char (nat Y mod 10)]"
      by (simp add: seg_def)
    then have "dec (take 4 seg) =
        int (((nat Y div 1000 * 10 + nat Y div 100 mod 10) * 10 + nat Y div 10 mod 10) * 10
              + nat Y mod 10)"
      using small by (simp only: dec_four_digits)
    also have "\<dots> = int (nat Y)" by (simp only: four_digit_value)
    also have "\<dots> = Y" using Y by simp
    finally show ?thesis .
  qed
  have m: "dec (take 2 (drop 4 seg)) = M"
    using small M by (simp add: seg_def dec_two_digits)
  have d: "dec (drop 6 seg) = D"
    using small D by (simp add: seg_def dec_two_digits)
  from call all y m d show ?thesis
    unfolding Y_def M_def D_def lt_def by (intro exI [of _ seg]) (simp add: seg_def)
qed

text \<open>
  In particular, on a host whose local time is UTC+9 the digits are the calendar date at
  UTC+9, as claim C3 has it, for every valid date before the year 10000.
\<close>

theorem update_list_path_on_host_at_utc9:
  assumes "localTZA h t = 32400000" "1606143600000 \<le> t" "t \<le> now h" "t < 253402268400000"
  shows "\<exists>seg. fst (getUpdatelawlists h (Date t)) = [baseUrl @ ''/updatelawlists/'' @ seg]
           \<and> length seg = 8 \<and> list_all (\<lambda>c. digit_of c < 10) seg
           \<and> dec (take 4 seg) = YearFromTime (t + 32400000)
           \<and> dec (take 2 (drop 4 seg)) = MonthFromTime (t + 32400000) + 1
           \<and> dec (drop 6 seg) = DateFromTime (t + 32400000)"
proof -
  have l: "LocalTime h t = t + 32400000" using assms(1) by (simp add: LocalTime_def)
  have "- 30610224000000 \<le> LocalTime h t" "LocalTime h t < 253402300800000"
    using assms(2,4) by (simp_all add: l)
  from update_list_path_is_local_date [OF assms(2,3) this] show ?thesis
    by (simp only: l)
qed

section \<open>The status envelope decoder (claim C5)\<close>

lemma parseInt_abc: "parseInt ''abc'' = NaN"
  by (simp add: parseInt_def trimStart.simps ws_len_def digit_of_def)

text \<open>
  Claim C5, as amended.  \<^verbatim>\<open>Result.fromElement\<close> fails, with a \<^verbatim>\<open>TypeError\<close>, exactly
  when no \<^verbatim>\<open>Code\<close> or no \<^verbatim>\<open>Message\<close> element is found under the envelope.  Otherwise
  it returns the record whose code is \<^verbatim>\<open>parseInt\<close> of the \<^verbatim>\<open>Code\<close> text and whose
  message is the \<^verbatim>\<open>Message\<close> text.  \<^verbatim>\<open>parseInt\<close> does not throw: a text that is not a
  parseable integer gives the code \<^verbatim>\<open>NaN\<close>, and the record is returned all the same.
\<close>

theorem Result_fromElement_outcomes:
  "Result_fromElement e =
     (case querySelector ''Code'' e of
        None \<Rightarrow> Inl TypeError
      | Some c \<Rightarrow>
          (case querySelector ''Message'' e of
             None \<Rightarrow> Inl TypeError
           | Some m \<Rightarrow> Inr \<lparr>code = parseInt (textContent c), message = textContent m\<rparr>))"
  by (simp add: Result_fromElement_def textOf_def split: option.splits)

text \<open>
  Claim C5 as stated has the decoder fail on a \<^verbatim>\<open>Code\<close> text that is not a parseable
  integer.  On the text \<^verbatim>\<open>abc\<close> it returns a record, with code \<^verbatim>\<open>NaN\<close>.
\<close>

theorem unparseable_code_is_decoded:
  "parseInt ''abc'' = NaN
   \<and> Result_fromElement envelope_unparseable_code = Inr \<lparr>code = NaN, message = ''m''\<rparr>"
  by (simp add: envelope_unparseable_code_def Result_fromElement_def textOf_def
        querySelector_def parseInt_abc)

section \<open>Required elements (claim C6)\<close>

text \<open>
  Claim C6, as amended.  A decoder reads each required field with
  \<^verbatim>\<open>e.querySelector(tag).textContent\<close>.  When the payload element has no descendant
  element of the required name, the lookup gives \<^verbatim>\<open>null\<close> and the decoder fails with
  a \<^verbatim>\<open>TypeError\<close>; it returns no record.  This holds for every required field of every
  entity decoder.
\<close>

theorem missing_required_element_fails:
  assumes "querySelector t e = None"
  shows "(t \<in> set [''Category''] \<longrightarrow> Lawlists_fromElement h e = Inl TypeError)
       \<and> (t \<in> set [''LawId'', ''LawName'', ''LawNo'', ''PromulgationDate'']
            \<longrightarrow> LawNameListInfo_fromElement h e = Inl TypeError)
       \<and> (t \<in> set [''LawId'', ''LawNum'', ''LawFullText'']
            \<longrightarrow> Lawdata_fromElement e = Inl TypeError)
       \<and> (t \<in> set [''LawId'', ''LawNum'', ''Article'', ''Paragraph'', ''AppdxTable'', ''LawContents'']
            \<longrightarrow> Articles_fromElement e = Inl TypeError)
       \<and> (t \<in> set [''Date''] \<longrightarrow> Updatelawlists_fromElement h e = Inl TypeError)
       \<and> (t \<in> set [''LawTypeName'', ''LawNo'', ''LawName'', ''LawNameKana'', ''OldLawName'',
                     ''PromulgationDate'', ''AmendName'', ''AmendNo'', ''AmendPromulgationDate'',
                     ''EnforcementDate'', ''EnforcementComment'', ''LawId'', ''LawUrl'',
                     ''EnforcementFlg'', ''AuthFlg'']
            \<longrightarrow> LawNameListInfo2_fromElement h e = Inl TypeError)"
proof (intro conjI impI)
  assume "t \<in> set [''Category'']"
  with assms show "Lawlists_fromElement h e = Inl TypeError"
    by (intro not_Inr_TypeError) (auto dest: Lawlists_err Lawlists_Inr)
next
  assume "t \<in> set [''LawId'', ''LawName'', ''LawNo'', ''PromulgationDate'']"
  with assms show "LawNameListInfo_fromElement h e = Inl TypeError"
    by (intro not_Inr_TypeError) (auto dest: LawNameListInfo_err LawNameListInfo_Inr)
next
  assume "t \<in> set [''LawId'', ''LawNum'', ''LawFullText'']"
  with assms show "Lawdata_fromElement e = Inl TypeError"
    by (intro not_Inr_TypeError) (auto dest: Lawdata_err Lawdata_Inr)
next
  assume "t \<in> set [''LawId'', ''LawNum'', ''Article'', ''Paragraph'', ''AppdxTable'', ''LawContents'']"
  with assms show "Articles_fromElement e = Inl TypeError"
    by (intro not_Inr_TypeError) (auto dest: Articles_err Articles_Inr)
next
  assume "t \<in> set [''Date'']"
  with assms show "Updatelawlists_fromElement h e = Inl TypeError"
    by (intro not_Inr_TypeError) (auto dest: Updatelawlists_err Updatelawlists_Inr)
next
  assume "t \<in> set [''LawTypeName'', ''LawNo'', ''LawName'', ''LawNameKana'', ''OldLawName'',
                     ''PromulgationDate'', ''AmendName'', ''AmendNo'', ''AmendPromulgationDate'',
                     ''EnforcementDate'', ''EnforcementComment'', ''LawId'', ''LawUrl'',
                     ''EnforcementFlg'', ''AuthFlg'']"
  with assms show "LawNameListInfo2_fromElement h e = Inl TypeError"
    by (intro not_Inr_TypeError) (auto dest: Info2_err Info2_Inr)
qed

text \<open>
  Claim C6 as stated speaks of a missing \<^emph>\<open>child\<close>.  The lookup is by descendant: a Law
  Data payload with no \<^verbatim>\<open>LawNum\<close> child, whose full text holds a \<^verbatim>\<open>LawNum\<close> element
  further down, decodes without failure and takes the nested element's text.
\<close>

theorem nested_element_stands_in_for_missing_child:
  "\<not> has_child ''LawNum'' payload_without_LawNum
   \<and> Lawdata_fromElement payload_without_LawNum =
       Inr \<lparr>Lawdata_LawId = ''a'', Lawdata_LawNum = ''n'', Lawdata_LawFullText = ''n'',
            Lawdata_ImageData = Undefined\<rparr>"
  by (simp add: payload_without_LawNum_def Lawdata_fromElement_def textOf_def optTextOf_def assigned_def
        querySelector_def)

text \<open>
  The theorem at a payload that has no \<^verbatim>\<open>LawId\<close> anywhere, and at an empty payload,
  which has neither \<^verbatim>\<open>Category\<close> nor \<^verbatim>\<open>Date\<close>.
\<close>

theorem missing_required_element_fails_witness:
  "querySelector ''LawId'' (Element ''ApplData'' [Element ''LawNum'' [Text ''n'']]) = None
   \<and> Lawdata_fromElement (Element ''ApplData'' [Element ''LawNum'' [Text ''n'']]) = Inl TypeError
   \<and> Articles_fromElement (Element ''ApplData'' [Element ''LawNum'' [Text ''n'']]) = Inl TypeError
   \<and> LawNameListInfo_fromElement (sample_host 1700000000000 32400000 (Document []))
        (Element ''ApplData'' [Element ''LawNum'' [Text ''n'']]) = Inl TypeError
   \<and> LawNameListInfo2_fromElement (sample_host 1700000000000 32400000 (Document []))
        (Element ''ApplData'' [Element ''LawNum'' [Text ''n'']]) = Inl TypeError
   \<and> querySelector ''Category'' (Element ''ApplData'' []) = None
   \<and> Lawlists_fromElement (sample_host 1700000000000 32400000 (Document []))
        (Element ''ApplData'' []) = Inl TypeError
   \<and> querySelector ''Date'' (Element ''ApplData'' []) = None
   \<and> Updatelawlists_fromElement (sample_host 1700000000000 32400000 (Document []))
        (Element ''ApplData'' []) = Inl TypeError"
proof -
  have i: "querySelector ''LawId'' (Element ''ApplData'' [Element ''LawNum'' [Text ''n'']]) = None"
    by (simp add: querySelector_def)
  have c: "querySelector ''Category'' (Element ''ApplData'' []) = None"
    by (simp add: querySelector_def)
  have d: "querySelector ''Date'' (Element ''ApplData'' []) = None"
    by (simp add: querySelector_def)
  from missing_required_element_fails
         [OF i, where h = "sample_host 1700000000000 32400000 (Document [])"]
       missing_required_element_fails
         [OF c, where h = "sample_host 1700000000000 32400000 (Document [])"]
       missing_required_element_fails
         [OF d, where h = "sample_host 1700000000000 32400000 (Document [])"]
       i c d
  show ?thesis by simp
qed

section \<open>The Articles request path (claim C7)\<close>

text \<open>
  Claim C7.  The path segment built by \<^verbatim>\<open>getArticles\<close> is made of one \<^verbatim>\<open>key=value\<close>
  piece per entry of the parameter object, in the order of the entries, with \<^verbatim>\<open>;\<close>
  between consecutive pieces and none at the end; so, when no value contains \<^verbatim>\<open>;\<close>,
  cutting the segment at every \<^verbatim>\<open>;\<close> gives back exactly the pieces, in order.  The
  URL requested is the base URL, \<^verbatim>\<open>/articles;\<close> and the segment.  With \<^verbatim>\<open>article\<close> 3
  alone the segment is \<^verbatim>\<open>article=3\<close>; with \<^verbatim>\<open>article\<close> 3 and \<^verbatim>\<open>paragraph\<close> 2 it is
  \<^verbatim>\<open>article=3;paragraph=2\<close>.
\<close>

theorem getArticles_segment_encoding:
  "getArticles_segment [(k, v)] = key_name k @ ''='' @ v
   \<and> getArticles_segment ((k, v) # p # ps) =
       (key_name k @ ''='' @ v) @ '';'' @ getArticles_segment (p # ps)
   \<and> (params \<noteq> [] \<and> list_all (\<lambda>(k, v). CHR '';'' \<notin> set v) params \<longrightarrow>
       split_on CHR '';'' (getArticles_segment params) =
         map (\<lambda>(k, v). key_name k @ ''='' @ v) params)
   \<and> fst (getArticles h params) = [baseUrl @ ''/articles;'' @ getArticles_segment params]
   \<and> getArticles_segment [(Key_article, ''3'')] = ''article=3''
   \<and> getArticles_segment [(Key_article, ''3''), (Key_paragraph, ''2'')] = ''article=3;paragraph=2''"
proof -
  have split: "split_on CHR '';'' (getArticles_segment params) =
         map (\<lambda>(k, v). key_name k @ ''='' @ v) params"
    if "params \<noteq> []" and "list_all (\<lambda>(k, v). CHR '';'' \<notin> set v) params"
  proof -
    have "list_all (\<lambda>s. CHR '';'' \<notin> set s) (map (\<lambda>(k, v). key_name k @ ''='' @ v) params)"
      using that(2) by (auto simp: list_all_iff key_name_no_semicolon)
    with that(1) show ?thesis
      unfolding getArticles_segment_def Let_def
      using split_on_join [of "map (\<lambda>(k, v). key_name k @ ''='' @ v) params" "CHR '';''"]
      by simp
  qed
  have uri: "fst (getArticles h params) = [baseUrl @ ''/articles;'' @ getArticles_segment params]"
    by (simp add: getArticles_def getArticles_uri_def Let_def fst_request)
  show ?thesis
    using split uri by (simp add: getArticles_segment_def)
qed

theorem getArticles_segment_encoding_witness:
  "[(Key_lawId, ''415AC0000000086''), (Key_article, ''3''), (Key_paragraph, ''2'')] \<noteq> []
   \<and> list_all (\<lambda>(k, v). CHR '';'' \<notin> set v)
        [(Key_lawId, ''415AC0000000086''), (Key_article, ''3''), (Key_paragraph, ''2'')]
   \<and> split_on CHR '';''
        (getArticles_segment
           [(Key_lawId, ''415AC0000000086''), (Key_article, ''3''), (Key_paragraph, ''2'')]) =
       [''lawId=415AC0000000086'', ''article=3'', ''paragraph=2'']"
  using getArticles_segment_encoding
    [where params = "[(Key_lawId, ''415AC0000000086''), (Key_article, ''3''), (Key_paragraph, ''2'')]"]
  by simp

section \<open>Optional fields (claim C8)\<close>

text \<open>
  Claim C8, as amended.  The two optional fields are set in two different ways.
  \<^verbatim>\<open>AppdxTableTitleLists\<close> is assigned only when its element is found: a decoded
  Articles record has no such property exactly when the payload holds no element of that
  name, and the property never holds \<^verbatim>\<open>undefined\<close>.  \<^verbatim>\<open>ImageData\<close> is assigned on
  every path, with \<^verbatim>\<open>e.querySelector('ImageData')?.textContent\<close>: every decoded Law
  Data and Articles record has the property, and it holds \<^verbatim>\<open>undefined\<close> exactly when
  the payload holds no \<^verbatim>\<open>ImageData\<close> element (otherwise the element's text, so it is
  never an empty text for a missing element).
\<close>

theorem optional_fields_of_decoded_records:
  "(Lawdata_fromElement e = Inr v \<longrightarrow>
      Lawdata_ImageData v \<noteq> Absent
      \<and> (Lawdata_ImageData v = Undefined) = (querySelector ''ImageData'' e = None)
      \<and> (\<forall>n. querySelector ''ImageData'' e = Some n \<longrightarrow>
             Lawdata_ImageData v = Value (textContent n)))
   \<and> (Articles_fromElement e = Inr a \<longrightarrow>
      Articles_ImageData a \<noteq> Absent
      \<and> (Articles_ImageData a = Undefined) = (querySelector ''ImageData'' e = None)
      \<and> (\<forall>n. querySelector ''ImageData'' e = Some n \<longrightarrow>
             Articles_ImageData a = Value (textContent n))
      \<and> (Articles_AppdxTableTitleLists a = Absent) = (querySelector ''AppdxTableTitleLists'' e = None)
      \<and> Articles_AppdxTableTitleLists a \<noteq> Undefined)"
  by (auto simp: Lawdata_fromElement_def Articles_fromElement_def bind_eq_Inr optTextOf_def
           assigned_def split: option.splits)

lemma lawdata_payload_plain_decoded:
  "Lawdata_fromElement lawdata_payload_plain =
     Inr \<lparr>Lawdata_LawId = ''a'', Lawdata_LawNum = ''n'', Lawdata_LawFullText = ''t'',
          Lawdata_ImageData = Undefined\<rparr>"
  by (simp add: lawdata_payload_plain_def Lawdata_fromElement_def textOf_def optTextOf_def
        assigned_def querySelector_def)

lemma articles_payload_plain_decoded:
  "Articles_fromElement articles_payload_plain =
     Inr \<lparr>Articles_LawId = ''a'', Articles_LawNum = ''n'', Articles_Article = ''3'',
          Articles_Paragraph = '''', Articles_AppdxTable = '''', Articles_LawContents = ''c'',
          Articles_AppdxTableTitleLists = Absent, Articles_ImageData = Undefined\<rparr>"
  by (simp add: articles_payload_plain_def Articles_fromElement_def textOf_def optTextOf_def
        assigned_def querySelector_def)

lemma lawdata_payload_image_decoded:
  "Lawdata_fromElement lawdata_payload_image =
     Inr \<lparr>Lawdata_LawId = ''a'', Lawdata_LawNum = ''n'', Lawdata_LawFullText = ''t'',
          Lawdata_ImageData = Value ''UEsDBA==''\<rparr>"
  by (simp add: lawdata_payload_image_def Lawdata_fromElement_def textOf_def optTextOf_def
        assigned_def querySelector_def)

text \<open>
  The theorem at payloads that hold neither optional element, and at a Law Data payload
  that holds an \<^verbatim>\<open>ImageData\<close> element.
\<close>

theorem optional_fields_of_decoded_records_witness:
  "(\<exists>v. Lawdata_fromElement lawdata_payload_plain = Inr v
        \<and> querySelector ''ImageData'' lawdata_payload_plain = None
        \<and> Lawdata_ImageData v \<noteq> Absent \<and> Lawdata_ImageData v = Undefined)
   \<and> (\<exists>a. Articles_fromElement articles_payload_plain = Inr a
        \<and> querySelector ''ImageData'' articles_payload_plain = None
        \<and> querySelector ''AppdxTableTitleLists'' articles_payload_plain = None
        \<and> Articles_ImageData a \<noteq> Absent \<and> Articles_ImageData a = Undefined
        \<and> Articles_AppdxTableTitleLists a = Absent)
   \<and> (\<exists>v. Lawdata_fromElement lawdata_payload_image = Inr v
        \<and> querySelector ''ImageData'' lawdata_payload_image =
            Some (Element ''ImageData'' [Text ''UEsDBA==''])
        \<and> Lawdata_ImageData v = Value ''UEsDBA=='')"
proof -
  have q1: "querySelector ''ImageData'' lawdata_payload_plain = None"
    by (simp add: lawdata_payload_plain_def querySelector_def)
  have q2: "querySelector ''ImageData'' articles_payload_plain = None"
    by (simp add: articles_payload_plain_def querySelector_def)
  have q3: "querySelector ''AppdxTableTitleLists'' articles_payload_plain = None"
    by (simp add: articles_payload_plain_def querySelector_def)
  have q4: "querySelector ''ImageData'' lawdata_payload_image =
            Some (Element ''ImageData'' [Text ''UEsDBA==''])"
    by (simp add: lawdata_payload_image_def querySelector_def)
  from optional_fields_of_decoded_records [of lawdata_payload_plain]
       optional_fields_of_decoded_records [of articles_payload_plain]
       optional_fields_of_decoded_records [of lawdata_payload_image]
       lawdata_payload_plain_decoded articles_payload_plain_decoded
       lawdata_payload_image_decoded q1 q2 q3 q4
  show ?thesis by simp
qed

text \<open>
  Claim C8 as stated has \<^verbatim>\<open>ImageData\<close> absent from the decoded record when the payload
  holds no such element.  A Law Data payload without the element decodes to a record
  that has the property, holding \<^verbatim>\<open>undefined\<close>; so does an Articles payload, while its
  \<^verbatim>\<open>AppdxTableTitleLists\<close> is absent.
\<close>

theorem ImageData_is_present_and_undefined:
  "querySelector ''ImageData'' lawdata_payload_plain = None
   \<and> Lawdata_fromElement lawdata_payload_plain =
       Inr \<lparr>Lawdata_LawId = ''a'', Lawdata_LawNum = ''n'', Lawdata_LawFullText = ''t'',
            Lawdata_ImageData = Undefined\<rparr>
   \<and> Lawdata_ImageData
        \<lparr>Lawdata_LawId = ''a'', Lawdata_LawNum = ''n'', Lawdata_LawFullText = ''t'',
         Lawdata_ImageData = Undefined\<rparr> \<noteq> Absent
   \<and> querySelector ''ImageData'' articles_payload_plain = None
   \<and> Articles_fromElement articles_payload_plain =
       Inr \<lparr>Articles_LawId = ''a'', Articles_LawNum = ''n'', Articles_Article = ''3'',
            Articles_Paragraph = '''', Articles_AppdxTable = '''', Articles_LawContents = ''c'',
            Articles_AppdxTableTitleLists = Absent, Articles_ImageData = Undefined\<rparr>"
  by (simp add: lawdata_payload_plain_def articles_payload_plain_def Lawdata_fromElement_def
        Articles_fromElement_def textOf_def optTextOf_def assigned_def querySelector_def)

section \<open>Enumerated fields (claim C9)\<close>

lemma parseInt_exact: "\<bar>v\<bar> \<le> 2 ^ 53 \<Longrightarrow> parseInt (show_int v) = Num v"
  by (simp add: parseInt_show_int to_double_exact)

lemma LawNameListInfo2_decoded:
  assumes "list_all (\<lambda>t. querySelector t info \<noteq> None)
     [''LawTypeName'', ''LawNo'', ''LawName'', ''LawNameKana'', ''OldLawName'',
      ''PromulgationDate'', ''AmendName'', ''AmendNo'', ''AmendPromulgationDate'',
      ''EnforcementDate'', ''EnforcementComment'', ''LawId'', ''LawUrl'',
      ''EnforcementFlg'', ''AuthFlg'']"
  shows "\<exists>r. LawNameListInfo2_fromElement h info = Inr r
           \<and> (\<forall>s. textOf ''LawTypeName'' info = Inr s \<longrightarrow> LawNameListInfo2_LawTypeName r = parseInt s)
           \<and> (\<forall>s. textOf ''EnforcementFlg'' info = Inr s \<longrightarrow> LawNameListInfo2_EnforcementFlg r = parseInt s)
           \<and> (\<forall>s. textOf ''AuthFlg'' info = Inr s \<longrightarrow> LawNameListInfo2_AuthFlg r = parseInt s)"
  using assms by (auto simp: LawNameListInfo2_fromElement_def textOf_def)

text \<open>
  Claim C9, as amended.  Let \<open>v\<close> be an integer of magnitude at most \<open>2 ^ 53\<close>, written
  in decimal.  A Law List payload whose \<^verbatim>\<open>Category\<close> text is \<open>v\<close> decodes, whenever its
  entries decode, to a record whose category is \<open>v\<close>.  An update-list entry that has all
  its fifteen elements decodes, whatever their texts, and each of \<^verbatim>\<open>LawTypeName\<close>,
  \<^verbatim>\<open>EnforcementFlg\<close> and \<^verbatim>\<open>AuthFlg\<close> whose text is \<open>v\<close> is \<open>v\<close> in the record.  No
  decoder compares the value with the enumeration.
\<close>

theorem lenient_enum_decoding:
  assumes "\<bar>v\<bar> \<le> 2 ^ 53"
  shows "(textOf ''Category'' e = Inr (show_int v)
            \<and> mapM (LawNameListInfo_fromElement h) (querySelectorAll ''LawNameListInfo'' e) = Inr infos
          \<longrightarrow> Lawlists_fromElement h e =
                Inr \<lparr>Lawlists_Category = Num v, Lawlists_LawNameListInfo = infos\<rparr>)
       \<and> (list_all (\<lambda>t. querySelector t info \<noteq> None)
             [''LawTypeName'', ''LawNo'', ''LawName'', ''LawNameKana'', ''OldLawName'',
              ''PromulgationDate'', ''AmendName'', ''AmendNo'', ''AmendPromulgationDate'',
              ''EnforcementDate'', ''EnforcementComment'', ''LawId'', ''LawUrl'',
              ''EnforcementFlg'', ''AuthFlg'']
          \<longrightarrow> (\<exists>r. LawNameListInfo2_fromElement h info = Inr r
                 \<and> (textOf ''LawTypeName'' info = Inr (show_int v)
                      \<longrightarrow> LawNameListInfo2_LawTypeName r = Num v)
                 \<and> (textOf ''EnforcementFlg'' info = Inr (show_int v)
                      \<longrightarrow> LawNameListInfo2_EnforcementFlg r = Num v)
                 \<and> (textOf ''AuthFlg'' info = Inr (show_int v)
                      \<longrightarrow> LawNameListInfo2_AuthFlg r = Num v)))"
proof (intro conjI impI)
  assume "textOf ''Category'' e = Inr (show_int v)
            \<and> mapM (LawNameListInfo_fromElement h) (querySelectorAll ''LawNameListInfo'' e) = Inr infos"
  then show "Lawlists_fromElement h e =
                Inr \<lparr>Lawlists_Category = Num v, Lawlists_LawNameListInfo = infos\<rparr>"
    using assms by (simp add: Lawlists_fromElement_def parseInt_exact)
next
  assume "list_all (\<lambda>t. querySelector t info \<noteq> None)
             [''LawTypeName'', ''LawNo'', ''LawName'', ''LawNameKana'', ''OldLawName'',
              ''PromulgationDate'', ''AmendName'', ''AmendNo'', ''AmendPromulgationDate'',
              ''EnforcementDate'', ''EnforcementComment'', ''LawId'', ''LawUrl'',
              ''EnforcementFlg'', ''AuthFlg'']"
  from LawNameListInfo2_decoded [OF this] obtain r where
    r: "LawNameListInfo2_fromElement h info = Inr r"
      "\<And>s. textOf ''LawTypeName'' info = Inr s \<Longrightarrow> LawNameListInfo2_LawTypeName r = parseInt s"
      "\<And>s. textOf ''EnforcementFlg'' info = Inr s \<Longrightarrow> LawNameListInfo2_EnforcementFlg r = parseInt s"
      "\<And>s. textOf ''AuthFlg'' info = Inr s \<Longrightarrow> LawNameListInfo2_AuthFlg r = parseInt s"
    by blast
  show "\<exists>r. LawNameListInfo2_fromElement h info = Inr r
                 \<and> (textOf ''LawTypeName'' info = Inr (show_int v)
                      \<longrightarrow> LawNameListInfo2_LawTypeName r = Num v)
                 \<and> (textOf ''EnforcementFlg'' info = Inr (show_int v)
                      \<longrightarrow> LawNameListInfo2_EnforcementFlg r = Num v)
                 \<and> (textOf ''AuthFlg'' info = Inr (show_int v)
                      \<longrightarrow> LawNameListInfo2_AuthFlg r = Num v)"
    using r assms by (auto simp: parseInt_exact)
qed

lemma show_int_7: "show_int 7 = ''7''"
  by (simp add: show_int_def digits.simps digit_char_def)

text \<open>
  The theorem at the value 7, outside every one of the enumerations.
\<close>

theorem lenient_enum_decoding_witness:
  "\<bar>7 :: int\<bar> \<le> 2 ^ 53
   \<and> textOf ''Category'' lawlists_payload_category_7 = Inr (show_int 7)
   \<and> Lawlists_fromElement (sample_host 1700000000000 32400000 (Document [])) lawlists_payload_category_7 =
       Inr \<lparr>Lawlists_Category = Num 7, Lawlists_LawNameListInfo = []\<rparr>
   \<and> textOf ''LawTypeName'' update_entry_7 = Inr (show_int 7)
   \<and> textOf ''EnforcementFlg'' update_entry_7 = Inr (show_int 7)
   \<and> textOf ''AuthFlg'' update_entry_7 = Inr (show_int 7)
   \<and> (\<exists>r. LawNameListInfo2_fromElement (sample_host 1700000000000 32400000 (Document [])) update_entry_7 = Inr r
         \<and> LawNameListInfo2_LawTypeName r = Num 7
         \<and> LawNameListInfo2_EnforcementFlg r = Num 7
         \<and> LawNameListInfo2_AuthFlg r = Num 7)"
proof -
  have v: "\<bar>7 :: int\<bar> \<le> 2 ^ 53" by simp
  have c: "textOf ''Category'' lawlists_payload_category_7 = Inr (show_int 7)"
    by (simp add: lawlists_payload_category_7_def textOf_def querySelector_def show_int_7)
  have m: "mapM (LawNameListInfo_fromElement (sample_host 1700000000000 32400000 (Document [])))
             (querySelectorAll ''LawNameListInfo'' lawlists_payload_category_7) = Inr []"
    by (simp add: lawlists_payload_category_7_def)
  have p: "list_all (\<lambda>t. querySelector t update_entry_7 \<noteq> None)
             [''LawTypeName'', ''LawNo'', ''LawName'', ''LawNameKana'', ''OldLawName'',
              ''PromulgationDate'', ''AmendName'', ''AmendNo'', ''AmendPromulgationDate'',
              ''EnforcementDate'', ''EnforcementComment'', ''LawId'', ''LawUrl'',
              ''EnforcementFlg'', ''AuthFlg'']"
    by (simp add: update_entry_7_def querySelector_def)
  have t: "textOf ''LawTypeName'' update_entry_7 = Inr (show_int 7)"
      "textOf ''EnforcementFlg'' update_entry_7 = Inr (show_int 7)"
      "textOf ''AuthFlg'' update_entry_7 = Inr (show_int 7)"
    by (simp_all add: update_entry_7_def textOf_def querySelector_def show_int_7)
  from lenient_enum_decoding
         [OF v, where e = lawlists_payload_category_7 and infos = "[]" and info = update_entry_7
            and h = "sample_host 1700000000000 32400000 (Document [])"] c m p t
  show ?thesis by simp
qed

lemma show_int_2_53_1: "show_int 9007199254740993 = ''9007199254740993''"
  by (simp add: show_int_def digits.simps digit_char_def)

lemma bitlen_2_53_1: "bitlen 9007199254740993 = 54"
  by (simp add: bitlen.simps)

lemma to_double_2_53_1: "to_double 9007199254740993 = Num 9007199254740992"
  by (simp add: to_double_def bitlen_2_53_1 Let_def)

text \<open>
  Claim C9 as stated holds of every integer.  A number is a double: the category
  9007199254740993, which is \<open>2 ^ 53 + 1\<close>, is decoded as 9007199254740992.
\<close>

theorem large_category_is_rounded:
  "textOf ''Category'' lawlists_payload_large_category = Inr (show_int 9007199254740993)
   \<and> Lawlists_fromElement (sample_host 1700000000000 32400000 (Document [])) lawlists_payload_large_category =
       Inr \<lparr>Lawlists_Category = Num 9007199254740992, Lawlists_LawNameListInfo = []\<rparr>
   \<and> Num 9007199254740992 \<noteq> Num 9007199254740993"
proof -
  have "parseInt ''9007199254740993'' = Num 9007199254740992"
    using parseInt_show_int [of 9007199254740993]
    by (simp add: show_int_2_53_1 to_double_2_53_1)
  then show ?thesis
    by (simp add: lawlists_payload_large_category_def Lawlists_fromElement_def textOf_def
          querySelector_def show_int_2_53_1)
qed

section \<open>The entries of an update list (claim C10)\<close>

text \<open>
  Claim C10, as amended.  \<^verbatim>\<open>Updatelawlists.fromElement\<close> always assigns the field
  \<^verbatim>\<open>LawNameListInfo\<close>: in every decoded record the property is present and holds a
  list, the decoded entries, in document order, of the \<^verbatim>\<open>LawNameListInfo\<close> elements
  found anywhere under the payload (\<^verbatim>\<open>querySelectorAll\<close> matches descendants, not only
  children).  When the payload has a \<^verbatim>\<open>Date\<close> and no such element under it, decoding
  succeeds and the field is the empty list.
\<close>

theorem Updatelawlists_LawNameListInfo_is_a_list:
  "(Updatelawlists_fromElement h e = Inr v \<longrightarrow>
      (\<exists>infos. Updatelawlists_LawNameListInfo v = Value infos
               \<and> mapM (LawNameListInfo2_fromElement h) (querySelectorAll ''LawNameListInfo'' e) =
                   Inr infos
               \<and> length infos = length (querySelectorAll ''LawNameListInfo'' e)))
   \<and> (querySelector ''Date'' e = Some d \<and> querySelectorAll ''LawNameListInfo'' e = [] \<longrightarrow>
      Updatelawlists_fromElement h e =
        Inr \<lparr>Updatelawlists_Date = parseInt (textContent d),
             Updatelawlists_LawNameListInfo = Value []\<rparr>)"
  by (auto simp: Updatelawlists_fromElement_def bind_eq_Inr textOf_def dest: mapM_length)

text \<open>The theorem at a payload with a date and no entries.\<close>

theorem Updatelawlists_LawNameListInfo_is_a_list_witness:
  "querySelector ''Date'' updatelawlists_payload_empty = Some (Element ''Date'' [Text ''20201124''])
   \<and> querySelectorAll ''LawNameListInfo'' updatelawlists_payload_empty = []
   \<and> Updatelawlists_fromElement (sample_host 1700000000000 32400000 (Document []))
        updatelawlists_payload_empty =
        Inr \<lparr>Updatelawlists_Date = parseInt ''20201124'',
             Updatelawlists_LawNameListInfo = Value []\<rparr>
   \<and> (\<exists>infos. Updatelawlists_LawNameListInfo
                 \<lparr>Updatelawlists_Date = parseInt ''20201124'',
                  Updatelawlists_LawNameListInfo = Value []\<rparr> = Value infos
               \<and> length infos = length (querySelectorAll ''LawNameListInfo'' updatelawlists_payload_empty))"
proof -
  have q: "querySelector ''Date'' updatelawlists_payload_empty = Some (Element ''Date'' [Text ''20201124''])"
    by (simp add: updatelawlists_payload_empty_def querySelector_def)
  have a: "querySelectorAll ''LawNameListInfo'' updatelawlists_payload_empty = []"
    by (simp add: updatelawlists_payload_empty_def)
  from Updatelawlists_LawNameListInfo_is_a_list
         [where e = updatelawlists_payload_empty and d = "Element ''Date'' [Text ''20201124'']"
            and h = "sample_host 1700000000000 32400000 (Document [])"] q a
  show ?thesis by simp
qed

text \<open>
  Claim C10 as stated has the list empty when the payload has no matching \<^emph>\<open>child\<close>.
  The lookup is by descendant: a payload with no \<^verbatim>\<open>LawNameListInfo\<close> child, and one
  such element further down, decodes to a list of one entry.
\<close>

theorem nested_entry_is_listed:
  "\<not> has_child ''LawNameListInfo'' updatelawlists_payload_nested
   \<and> Updatelawlists_fromElement (sample_host 1700000000000 32400000 (Document []))
        updatelawlists_payload_nested =
       Inr \<lparr>Updatelawlists_Date = Num 20201124,
            Updatelawlists_LawNameListInfo =
              Value [\<lparr>LawNameListInfo2_LawTypeName = Num 7,
                      LawNameListInfo2_LawNo = '''',
                      LawNameListInfo2_LawName = '''',
                      LawNameListInfo2_LawNameKana = '''',
                      LawNameListInfo2_OldLawName = '''',
                      LawNameListInfo2_PromulgationDate = Date 1606143600000,
                      LawNameListInfo2_AmendName = '''',
                      LawNameListInfo2_AmendNo = '''',
                      LawNameListInfo2_AmendPromulgationDate = '''',
                      LawNameListInfo2_EnforcementDate = '''',
                      LawNameListInfo2_EnforcementComment = '''',
                      LawNameListInfo2_LawId = '''',
                      LawNameListInfo2_LawUrl = '''',
                      LawNameListInfo2_EnforcementFlg = Num 7,
                      LawNameListInfo2_AuthFlg = Num 7\<rparr>]\<rparr>"
proof -
  have p7: "parseInt ''7'' = Num 7"
    using parseInt_show_int [of 7] by (simp add: show_int_7 to_double_small)
  have entry: "LawNameListInfo2_fromElement (sample_host 1700000000000 32400000 (Document []))
        update_entry_7 =
      Inr \<lparr>LawNameListInfo2_LawTypeName = Num 7,
                      LawNameListInfo2_LawNo = '''',
                      LawNameListInfo2_LawName = '''',
                      LawNameListInfo2_LawNameKana = '''',
                      LawNameListInfo2_OldLawName = '''',
                      LawNameListInfo2_PromulgationDate = Date 1606143600000,
                      LawNameListInfo2_AmendName = '''',
                      LawNameListInfo2_AmendNo = '''',
                      LawNameListInfo2_AmendPromulgationDate = '''',
                      LawNameListInfo2_EnforcementDate = '''',
                      LawNameListInfo2_EnforcementComment = '''',
                      LawNameListInfo2_LawId = '''',
                      LawNameListInfo2_LawUrl = '''',
                      LawNameListInfo2_EnforcementFlg = Num 7,
                      LawNameListInfo2_AuthFlg = Num 7\<rparr>"
    by (simp add: update_entry_7_def LawNameListInfo2_fromElement_def textOf_def
          querySelector_def p7 PromulgationDate_of_20201124)
  have all: "querySelectorAll ''LawNameListInfo'' updatelawlists_payload_nested = [update_entry_7]"
    by (simp add: updatelawlists_payload_nested_def update_entry_7_def)
  have date: "textOf ''Date'' updatelawlists_payload_nested = Inr ''20201124''"
    by (simp add: updatelawlists_payload_nested_def textOf_def querySelector_def)
  have child: "\<not> has_child ''LawNameListInfo'' updatelawlists_payload_nested"
    by (simp add: updatelawlists_payload_nested_def)
  show ?thesis
    by (simp add: child Updatelawlists_fromElement_def date all entry parseInt_20201124)
qed

end
